theory Spec2Isabelle
  imports Complex_Main "HOL-Library.Word"
begin

unbundle bit_operations_syntax

section \<open>The clock feed (sfptpd\_clockfeed.c)\<close>

subsection \<open>Constants\<close>

definition MAX_CLOCK_SAMPLES_LOG2 :: nat where
  "MAX_CLOCK_SAMPLES_LOG2 = 4"

definition MAX_CLOCK_SAMPLES :: nat where
  "MAX_CLOCK_SAMPLES = 2 ^ MAX_CLOCK_SAMPLES_LOG2"

definition MAX_EVENT_SUBSCRIBERS :: nat where
  "MAX_EVENT_SUBSCRIBERS = 4"

text \<open>A pointer is an address; \<open>NULL\<close> is address 0.\<close>

definition NULL :: nat where
  "NULL = 0"

text \<open>The error numbers of \<open>errno.h\<close> (Linux) that the two files return.\<close>

definition ENOENT :: int where "ENOENT = 2"
definition EAGAIN :: int where "EAGAIN = 11"
definition ENOSPC :: int where "ENOSPC = 28"
definition ENODATA :: int where "ENODATA = 61"
definition ESTALE :: int where "ESTALE = 116"
definition EOWNERDEAD :: int where "EOWNERDEAD = 130"

subsection \<open>Times\<close>

text \<open>\<open>struct timespec\<close>: seconds and nanoseconds. Both are 64-bit in C; the model
  uses unbounded integers, times being far from the ends of the range.\<close>

record timespec =
  tv_sec :: int
  tv_nsec :: int

definition timespec_zero :: timespec where
  "timespec_zero = \<lparr>tv_sec = 0, tv_nsec = 0\<rparr>"

text \<open>Modelled from the spec: the helpers of \<open>sfptpd_time.h\<close> are not among the
  sources. \<open>sfptpd_time_subtract\<close> and \<open>sfptpd_time_add\<close> are the difference and the
  sum of two times with the nanoseconds brought back into one second;
  \<open>sfptpd_time_cmp\<close> orders two times (negative, zero, positive).\<close>

definition sfptpd_time_normalise :: "timespec \<Rightarrow> timespec" where
  "sfptpd_time_normalise t =
     \<lparr>tv_sec = tv_sec t + tv_nsec t div 1000000000, tv_nsec = tv_nsec t mod 1000000000\<rparr>"

definition sfptpd_time_subtract :: "timespec \<Rightarrow> timespec \<Rightarrow> timespec" where
  "sfptpd_time_subtract a b =
     sfptpd_time_normalise \<lparr>tv_sec = tv_sec a - tv_sec b, tv_nsec = tv_nsec a - tv_nsec b\<rparr>"

definition sfptpd_time_add :: "timespec \<Rightarrow> timespec \<Rightarrow> timespec" where
  "sfptpd_time_add a b =
     sfptpd_time_normalise \<lparr>tv_sec = tv_sec a + tv_sec b, tv_nsec = tv_nsec a + tv_nsec b\<rparr>"

definition sfptpd_time_cmp :: "timespec \<Rightarrow> timespec \<Rightarrow> int" where
  "sfptpd_time_cmp a b =
     (if tv_sec a < tv_sec b then - 1
      else if tv_sec a > tv_sec b then 1
      else if tv_nsec a < tv_nsec b then - 1
      else if tv_nsec a > tv_nsec b then 1
      else 0)"

definition sfptpd_time_is_greater_or_equal :: "timespec \<Rightarrow> timespec \<Rightarrow> bool" where
  "sfptpd_time_is_greater_or_equal a b \<longleftrightarrow> sfptpd_time_cmp a b \<ge> 0"

subsection \<open>Data\<close>

text \<open>\<open>struct sfptpd_clockfeed_sample\<close>, as \<open>clockfeed_on_timer\<close> fills it.\<close>

record sfptpd_clockfeed_sample =
  seq :: "64 word"
  rc :: int
  mono :: timespec
  system :: timespec
  snapshot :: timespec

text \<open>\<open>struct clockfeed_shm\<close>. The array of \<open>MAX_CLOCK_SAMPLES\<close> samples is a
  function of the index; every index the code computes is masked to 0..15. The magic
  numbers of the structures mark live objects; in the model an object is live when its
  address is in the heap.\<close>

record clockfeed_shm =
  samples :: "nat \<Rightarrow> sfptpd_clockfeed_sample"
  write_counter :: "64 word"

text \<open>\<open>struct sfptpd_clockfeed_sub\<close>. The two counters are \<open>int64_t\<close>; they only
  ever hold \<open>-1\<close>, a value of an \<open>int\<close>, or one more than that, so they are
  integers here. The \<open>next\<close> pointer is the list \<open>subscribers\<close> of the source.\<close>

record sfptpd_clockfeed_sub =
  source :: nat
  read_counter :: int
  min_counter :: int
  have_max_age :: bool
  have_max_age_diff :: bool
  max_age :: timespec
  max_age_diff :: timespec

text \<open>\<open>struct clockfeed_source\<close>. \<open>src_poll_period_log2\<close> is the field
  \<open>poll_period_log2\<close> and \<open>src_inactive\<close> the field \<open>inactive\<close> (the module has
  fields of the same names). The linked list through \<open>subscribers\<close> and the
  subscriptions' \<open>next\<close> is the list of their addresses, head first.\<close>

record clockfeed_source =
  clock :: nat
  src_poll_period_log2 :: int
  cycles :: "64 word"
  shm :: clockfeed_shm
  subscribers :: "nat list"
  src_inactive :: bool

subsection \<open>Reading a source: \<open>clockfeed_compare_to_sys\<close>\<close>

text \<open>What the reading thread observes outside the subscription and the source:
  whether the clock is active (\<open>sfptpd_clock_is_active\<close>), the write counter at the
  second read (the feed thread may have written in between), and the monotonic time
  (\<open>None\<close> when \<open>clock_gettime\<close> fails).\<close>

record reader_env =
  clock_is_active :: bool
  write_counter_reread :: "64 word"
  now_mono :: "timespec option"

text \<open>The result: the return code, the out-parameters (\<open>None\<close> for one that was not
  written; \<open>diff\<close> is always written) and the subscription, whose \<open>read_counter\<close>
  a successful read updates.\<close>

record compare_to_sys_result =
  ret :: int
  diff :: timespec
  t1 :: "timespec option"
  t2 :: "timespec option"
  mono_time :: "timespec option"
  sub_after :: sfptpd_clockfeed_sub

definition index_mask :: "32 word" where
  "index_mask = push_bit MAX_CLOCK_SAMPLES_LOG2 1 - 1"

text \<open>The counters \<open>writer1\<close> and \<open>writer2\<close> are \<open>int\<close>: the 64-bit write counter
  is cut to 32 bits and read as signed. The sum \<open>writer1 + MAX_CLOCK_SAMPLES - 1\<close> is
  computed in 32 bits (an overflow is undefined in C; the theorems stay below it).
  The arguments \<open>want_t1\<close>, \<open>want_t2\<close> and \<open>want_mono\<close> say which of the
  out-pointers are not \<open>NULL\<close>.\<close>

definition clockfeed_compare_to_sys ::
  "sfptpd_clockfeed_sub \<Rightarrow> clockfeed_source \<Rightarrow> reader_env \<Rightarrow> bool \<Rightarrow> bool \<Rightarrow> bool
     \<Rightarrow> compare_to_sys_result" where
  "clockfeed_compare_to_sys sub src env want_t1 want_t2 want_mono =
     (let writer1 = (ucast (write_counter (shm src)) :: 32 word);
          r0 = \<lparr>ret = 0, diff = timespec_zero, t1 = None, t2 = None, mono_time = None,
                sub_after = sub\<rparr>
      in if src_inactive src then r0\<lparr>ret := EOWNERDEAD\<rparr>
         else if \<not> clock_is_active env then r0\<lparr>ret := ENOENT\<rparr>
         else if writer1 = 0 then r0\<lparr>ret := EAGAIN\<rparr>
         else
           let sample = samples (shm src) (unat ((writer1 - 1) AND index_mask))
           in if rc sample \<noteq> 0 then r0
              else
                let r1 = r0\<lparr>diff := sfptpd_time_subtract (snapshot sample) (system sample)\<rparr>;
                    writer2 = (ucast (write_counter_reread env) :: 32 word)
                in if sint writer2 \<ge> sint (writer1 + word_of_nat MAX_CLOCK_SAMPLES - 1)
                   then r1\<lparr>ret := ENODATA\<rparr>
                   else if sint writer1 < min_counter sub then r1\<lparr>ret := ESTALE\<rparr>
                   else if have_max_age sub \<and> now_mono env = None then r1\<lparr>ret := EAGAIN\<rparr>
                   else if have_max_age sub \<and>
                           sfptpd_time_cmp (sfptpd_time_subtract (the (now_mono env)) (mono sample))
                             (max_age sub) > 0
                   then r1\<lparr>ret := ESTALE\<rparr>
                   else r1\<lparr>t1 := (if want_t1 then Some (snapshot sample) else None),
                           t2 := (if want_t2 then Some (system sample) else None),
                           mono_time := (if want_mono then Some (mono sample) else None),
                           sub_after := sub\<lparr>read_counter := sint writer1\<rparr>\<rparr>)"

subsection \<open>Comparing two clocks: \<open>sfptpd_clockfeed_compare\<close>\<close>

text \<open>A leg of a comparison is a subscription with its source and what the reader
  observes; \<open>None\<close> is the \<open>NULL\<close> subscription of the system clock.\<close>

type_synonym compare_leg = "sfptpd_clockfeed_sub \<times> clockfeed_source \<times> reader_env"

record compare_result =
  cmp_ret :: int
  cmp_diff :: timespec
  cmp_t1 :: "timespec option"
  cmp_t2 :: "timespec option"
  cmp_mono :: "timespec option"
  sub1_after :: "sfptpd_clockfeed_sub option"
  sub2_after :: "sfptpd_clockfeed_sub option"

text \<open>The smaller of the two \<open>max_age_diff\<close> limits, when both legs are
  subscriptions; \<open>None\<close> is the \<open>NULL\<close> pointer.\<close>

definition compare_max_age_diff :: "compare_leg option \<Rightarrow> compare_leg option \<Rightarrow> timespec option" where
  "compare_max_age_diff leg1 leg2 =
     (case (leg1, leg2) of
        (Some (sub1, _, _), Some (sub2, _, _)) \<Rightarrow>
          (let m1 = (if have_max_age_diff sub1 then Some (max_age_diff sub1) else None)
           in if have_max_age_diff sub2 \<and>
                 (case m1 of None \<Rightarrow> True
                  | Some m \<Rightarrow> sfptpd_time_is_greater_or_equal m (max_age_diff sub2))
              then Some (max_age_diff sub2) else m1)
      | _ \<Rightarrow> None)"

text \<open>The locals \<open>mono1\<close> and \<open>mono2\<close> and the caller's \<open>*mono\<close> hold nothing
  until a leg writes them, and a leg that returns early writes none of them. A time
  that was not written is \<open>None\<close>; where the code reads one, its outcome is not
  determined and the function is \<open>None\<close>. The caller's \<open>*mono\<close> is taken to
  hold nothing on entry, being an out-parameter.\<close>

definition mono2_earlier :: "timespec \<Rightarrow> timespec \<Rightarrow> bool" where
  "mono2_earlier mono2 m \<longleftrightarrow>
     tv_sec mono2 < tv_sec m \<or> (tv_sec mono2 = tv_nsec m \<and> tv_nsec mono2 < tv_nsec m)"

definition sfptpd_clockfeed_compare ::
  "compare_leg option \<Rightarrow> compare_leg option \<Rightarrow> bool \<Rightarrow> bool \<Rightarrow> bool \<Rightarrow> compare_result option" where
  "sfptpd_clockfeed_compare leg1 leg2 want_t1 want_t2 want_mono =
     (let mad = compare_max_age_diff leg1 leg2;
          use_mono = (want_mono \<or> mad \<noteq> None);
          r1 = (case leg1 of None \<Rightarrow> None
                | Some (sub1, src1, env1) \<Rightarrow>
                    Some (clockfeed_compare_to_sys sub1 src1 env1 want_t1
                            (leg2 = None \<and> want_t2) use_mono));
          rc1 = (case r1 of None \<Rightarrow> 0 | Some r \<Rightarrow> ret r);
          diff1 = (case r1 of None \<Rightarrow> timespec_zero | Some r \<Rightarrow> diff r);
          mono1 = (case r1 of None \<Rightarrow> None | Some r \<Rightarrow> mono_time r);
          res1 = \<lparr>cmp_ret = rc1,
                  cmp_diff = diff1,
                  cmp_t1 = (case r1 of None \<Rightarrow> None | Some r \<Rightarrow> t1 r),
                  cmp_t2 = (case r1 of None \<Rightarrow> None | Some r \<Rightarrow> t2 r),
                  cmp_mono = (if want_mono then mono1 else None),
                  sub1_after = map_option sub_after r1,
                  sub2_after = map_option fst leg2\<rparr>
      in case (if rc1 = 0 then leg2 else None) of
           None \<Rightarrow> Some res1
         | Some (sub2, src2, env2) \<Rightarrow>
             (let r2 = clockfeed_compare_to_sys sub2 src2 env2 want_t2
                         (leg1 = None \<and> want_t1) use_mono;
                  res2 = res1\<lparr>cmp_ret := ret r2,
                              cmp_t2 := (case t1 r2 of None \<Rightarrow> cmp_t2 res1 | Some t \<Rightarrow> Some t),
                              cmp_t1 := (case t2 r2 of None \<Rightarrow> cmp_t1 res1 | Some t \<Rightarrow> Some t),
                              sub2_after := Some (sub_after r2)\<rparr>
              in if ret r2 \<noteq> 0 then Some res2
                 else if \<not> use_mono
                 then Some (res2\<lparr>cmp_diff := sfptpd_time_subtract diff1 (diff r2)\<rparr>)
                 else
                   (case (mono1, mono_time r2) of
                      (Some m, Some mono2) \<Rightarrow>
                        (let m' = (if mono2_earlier mono2 m then mono2 else m);
                             res3 = res2\<lparr>cmp_diff := sfptpd_time_subtract diff1 (diff r2),
                                         cmp_mono := (if want_mono then Some m' else None)\<rparr>;
                             age_diff = (if sfptpd_time_is_greater_or_equal mono2 m'
                                         then sfptpd_time_subtract mono2 m'
                                         else sfptpd_time_subtract m' mono2)
                         in case mad of
                              None \<Rightarrow> Some res3
                            | Some limit \<Rightarrow>
                                if sfptpd_time_is_greater_or_equal age_diff limit
                                then Some (res3\<lparr>cmp_ret := ESTALE\<rparr>)
                                else Some res3)
                    | _ \<Rightarrow> None)))"

subsection \<open>The module and its heap\<close>

text \<open>\<open>struct sfptpd_clockfeed\<close>, with the objects it owns. The linked lists
  \<open>active\<close> and \<open>inactive\<close> (through the sources' \<open>next\<close>) are the lists of the
  sources' addresses, head first. \<open>event_subscribers\<close> is the array of
  \<open>MAX_EVENT_SUBSCRIBERS\<close> thread pointers. \<open>sources\<close> and \<open>subs\<close> are the heap:
  the allocated sources and subscriptions by address; \<open>free\<close> removes the address.\<close>

record sfptpd_clockfeed =
  poll_period_log2 :: int
  running_phase :: bool
  active :: "nat list"
  inactive :: "nat list"
  event_subscribers :: "nat list"
  sources :: "nat \<rightharpoonup> clockfeed_source"
  subs :: "nat \<rightharpoonup> sfptpd_clockfeed_sub"

text \<open>What a message handler does to its message: whether it replies, the
  subscription a subscribe reply carries, and the error number with which it calls
  \<open>sfptpd_thread_exit\<close> (on the thread that runs the handler, the feed's own).\<close>

record msg_outcome =
  replied :: bool
  resp_sub :: "nat option"
  thread_exit :: "int option"

definition MSG_REPLY :: msg_outcome where
  "MSG_REPLY = \<lparr>replied = True, resp_sub = None, thread_exit = None\<rparr>"

text \<open>A handler returns \<open>None\<close> where the process stops: an assertion fails or a
  pointer that is \<open>NULL\<close> or freed is followed.\<close>

type_synonym handled = "(msg_outcome \<times> sfptpd_clockfeed) option"

text \<open>The zeroed objects \<open>calloc\<close> returns.\<close>

definition calloc_sample :: sfptpd_clockfeed_sample where
  "calloc_sample = \<lparr>seq = 0, rc = 0, mono = timespec_zero, system = timespec_zero,
                     snapshot = timespec_zero\<rparr>"

definition calloc_source :: clockfeed_source where
  "calloc_source = \<lparr>clock = NULL, src_poll_period_log2 = 0, cycles = 0,
                     shm = \<lparr>samples = (\<lambda>_. calloc_sample), write_counter = 0\<rparr>,
                     subscribers = [], src_inactive = False\<rparr>"

definition calloc_sub :: sfptpd_clockfeed_sub where
  "calloc_sub = \<lparr>source = NULL, read_counter = 0, min_counter = 0, have_max_age = False,
                  have_max_age_diff = False, max_age = timespec_zero,
                  max_age_diff = timespec_zero\<rparr>"

text \<open>The loops that walk a linked list to a given node and unlink it
  (\<open>*nextp = node->next\<close>). Every node passed on the way is read, so it must be
  live. \<open>None\<close>: a node on the way is not live, or the list ends before the node
  (the assertion \<open>*nextp == source\<close> of \<open>clockfeed_reap_zombies\<close> fails; the loop of
  \<open>clockfeed_on_unsubscribe\<close> follows \<open>NULL\<close>).\<close>

fun unlink :: "(nat \<rightharpoonup> 'a) \<Rightarrow> nat \<Rightarrow> nat list \<Rightarrow> nat list option" where
  "unlink h p [] = None"
| "unlink h p (q # qs) =
     (if q = p then Some qs
      else (case h q of None \<Rightarrow> None
            | Some _ \<Rightarrow> map_option ((#) q) (unlink h p qs)))"

text \<open>The loops that look for the source of a clock: the address of the first source
  of the list with that clock, \<open>NULL\<close> if there is none.\<close>

fun find_source :: "(nat \<rightharpoonup> clockfeed_source) \<Rightarrow> nat \<Rightarrow> nat list \<Rightarrow> nat option" where
  "find_source h c [] = Some NULL"
| "find_source h c (p # ps) =
     (case h p of None \<Rightarrow> None
      | Some s \<Rightarrow> if clock s = c then Some p else find_source h c ps)"

subsection \<open>The message handlers\<close>

definition clockfeed_reap_zombies :: "sfptpd_clockfeed \<Rightarrow> nat \<Rightarrow> sfptpd_clockfeed option" where
  "clockfeed_reap_zombies feed src =
     (case sources feed src of
        None \<Rightarrow> None
      | Some s \<Rightarrow>
          if src_inactive s \<and> subscribers s = [] then
            (case unlink (sources feed) src (inactive feed) of
               None \<Rightarrow> None
             | Some rest \<Rightarrow>
                 Some (feed\<lparr>inactive := rest, sources := (sources feed)(src := None)\<rparr>))
          else Some feed)"

text \<open>\<open>new\<close> is the address \<open>calloc\<close> returns.\<close>

definition clockfeed_on_add_clock :: "sfptpd_clockfeed \<Rightarrow> nat \<Rightarrow> int \<Rightarrow> nat \<Rightarrow> handled" where
  "clockfeed_on_add_clock feed clk log2 new =
     (if new = NULL then None
      else
        let s = calloc_source\<lparr>clock := clk,
                  src_poll_period_log2 :=
                    (if log2 < poll_period_log2 feed then poll_period_log2 feed else log2)\<rparr>
        in Some (MSG_REPLY,
                 feed\<lparr>active := new # active feed,
                        sources := (sources feed)(new \<mapsto> s)\<rparr>))"

definition clockfeed_on_remove_clock :: "sfptpd_clockfeed \<Rightarrow> nat \<Rightarrow> handled" where
  "clockfeed_on_remove_clock feed clk =
     (if clk = NULL then None
      else case find_source (sources feed) clk (active feed) of
        None \<Rightarrow> None
      | Some p \<Rightarrow>
          if p = NULL then Some (MSG_REPLY, feed)
          else
            (case sources feed p of
               None \<Rightarrow> None
             | Some s \<Rightarrow>
                 map_option (Pair MSG_REPLY)
                   (clockfeed_reap_zombies
                      (feed\<lparr>active := remove1 p (active feed),
                            inactive := p # inactive feed,
                            sources := (sources feed)(p \<mapsto> s\<lparr>src_inactive := True\<rparr>)\<rparr>)
                      p)))"

definition clockfeed_on_subscribe :: "sfptpd_clockfeed \<Rightarrow> nat \<Rightarrow> nat \<Rightarrow> handled" where
  "clockfeed_on_subscribe feed clk new =
     (if clk = NULL then None
      else case find_source (sources feed) clk (active feed) of
        None \<Rightarrow> None
      | Some p1 \<Rightarrow>
          (case (if p1 = NULL then find_source (sources feed) clk (inactive feed)
                 else Some p1) of
             None \<Rightarrow> None
           | Some p \<Rightarrow>
               if p = NULL then Some (MSG_REPLY\<lparr>resp_sub := Some NULL\<rparr>, feed)
               else if new = NULL then None
               else
                 (case sources feed p of
                    None \<Rightarrow> None
                  | Some s \<Rightarrow>
                      Some (MSG_REPLY\<lparr>resp_sub := Some new\<rparr>,
                            feed\<lparr>subs := (subs feed)
                                    (new \<mapsto> calloc_sub\<lparr>source := p, read_counter := - 1,
                                                           min_counter := - 1\<rparr>),
                                  sources := (sources feed)
                                    (p \<mapsto> s\<lparr>subscribers := new # subscribers s\<rparr>)\<rparr>))))"

text \<open>The test \<open>s == NULL\<close> after the loop is never true: the loop leaves only at
  \<open>s == sub\<close>.\<close>

definition clockfeed_on_unsubscribe :: "sfptpd_clockfeed \<Rightarrow> nat \<Rightarrow> handled" where
  "clockfeed_on_unsubscribe feed sub =
     (if sub = NULL then None
      else case subs feed sub of
        None \<Rightarrow> None
      | Some sb \<Rightarrow>
          (case sources feed (source sb) of
             None \<Rightarrow> None
           | Some s \<Rightarrow>
               (case unlink (subs feed) sub (subscribers s) of
                  None \<Rightarrow> None
                | Some rest \<Rightarrow>
                    (case clockfeed_reap_zombies
                            (feed\<lparr>sources := (sources feed)
                                       (source sb \<mapsto> s\<lparr>subscribers := rest\<rparr>)\<rparr>)
                            (source sb) of
                       None \<Rightarrow> None
                     | Some feed' \<Rightarrow>
                         Some (MSG_REPLY, feed'\<lparr>subs := (subs feed')(sub := None)\<rparr>)))))"

function subscribe_events_loop :: "nat list \<Rightarrow> nat \<Rightarrow> nat \<Rightarrow> nat list option" where
  "subscribe_events_loop es thread i =
     (if i < MAX_EVENT_SUBSCRIBERS then
        (if es ! i = NULL then Some (es[i := thread])
         else subscribe_events_loop es thread (Suc i))
      else None)"
  by pat_completeness auto
termination
  by (relation "measure (\<lambda>(es, thread, i). MAX_EVENT_SUBSCRIBERS - i)") auto

declare subscribe_events_loop.simps [simp del]

definition clockfeed_on_subscribe_events :: "sfptpd_clockfeed \<Rightarrow> nat \<Rightarrow> handled" where
  "clockfeed_on_subscribe_events feed thread =
     (if thread = NULL then None
      else case subscribe_events_loop (event_subscribers feed) thread 0 of
        Some es \<Rightarrow> Some (MSG_REPLY, feed\<lparr>event_subscribers := es\<rparr>)
      | None \<Rightarrow> Some (\<lparr>replied = False, resp_sub = None, thread_exit = Some ENOSPC\<rparr>, feed))"

definition clockfeed_on_unsubscribe_events :: "sfptpd_clockfeed \<Rightarrow> nat \<Rightarrow> handled" where
  "clockfeed_on_unsubscribe_events feed thread =
     (if thread = NULL then None
      else Some (MSG_REPLY,
                 feed\<lparr>event_subscribers :=
                          map (\<lambda>t. if t = thread then NULL else t) (event_subscribers feed)\<rparr>))"

definition clockfeed_on_run :: "sfptpd_clockfeed \<Rightarrow> sfptpd_clockfeed" where
  "clockfeed_on_run feed = feed\<lparr>running_phase := True\<rparr>"

text \<open>The messages of the feed thread; \<open>MSG_OTHER\<close> is any other message id. A
  message that is freed rather than answered has \<open>replied = False\<close>.\<close>

datatype clockfeed_msg =
    APP_MSG_RUN
  | CLOCKFEED_MSG_ADD_CLOCK nat int
  | CLOCKFEED_MSG_REMOVE_CLOCK nat
  | CLOCKFEED_MSG_SUBSCRIBE nat
  | CLOCKFEED_MSG_UNSUBSCRIBE nat
  | CLOCKFEED_MSG_SUBSCRIBE_EVENTS nat
  | CLOCKFEED_MSG_UNSUBSCRIBE_EVENTS nat
  | MSG_OTHER

definition MSG_FREE :: msg_outcome where
  "MSG_FREE = \<lparr>replied = False, resp_sub = None, thread_exit = None\<rparr>"

fun clockfeed_on_message :: "sfptpd_clockfeed \<Rightarrow> clockfeed_msg \<Rightarrow> nat \<Rightarrow> handled" where
  "clockfeed_on_message feed APP_MSG_RUN new = Some (MSG_FREE, clockfeed_on_run feed)"
| "clockfeed_on_message feed (CLOCKFEED_MSG_ADD_CLOCK clk log2) new =
     clockfeed_on_add_clock feed clk log2 new"
| "clockfeed_on_message feed (CLOCKFEED_MSG_REMOVE_CLOCK clk) new =
     clockfeed_on_remove_clock feed clk"
| "clockfeed_on_message feed (CLOCKFEED_MSG_SUBSCRIBE clk) new =
     clockfeed_on_subscribe feed clk new"
| "clockfeed_on_message feed (CLOCKFEED_MSG_UNSUBSCRIBE sub) new =
     clockfeed_on_unsubscribe feed sub"
| "clockfeed_on_message feed (CLOCKFEED_MSG_SUBSCRIBE_EVENTS thread) new =
     clockfeed_on_subscribe_events feed thread"
| "clockfeed_on_message feed (CLOCKFEED_MSG_UNSUBSCRIBE_EVENTS thread) new =
     clockfeed_on_unsubscribe_events feed thread"
| "clockfeed_on_message feed MSG_OTHER new = Some (MSG_FREE, feed)"

section \<open>The SHM servo instance (sfptpd\_shm\_module.c)\<close>

subsection \<open>Numbers and times\<close>

text \<open>A \<open>long double\<close> is a number, an infinity or a NaN. Every real is allowed as a
  number, the representable ones among them; what the platform's arithmetic returns,
  with its rounding, is left to the environment (\<open>long_double_add\<close> and
  \<open>long_double_sub\<close> below), so a theorem holds whatever the rounding. The comparisons
  are those of C: false as soon as an operand is a NaN. Negation is exact.\<close>

datatype long_double = LD real | LD_INF | LD_NEG_INF | LD_NAN

instantiation long_double :: zero
begin
definition zero_long_double :: long_double where
  "zero_long_double = LD 0"
instance ..
end

fun ld_less :: "long_double \<Rightarrow> long_double \<Rightarrow> bool" where
  "ld_less (LD a) (LD b) \<longleftrightarrow> a < b"
| "ld_less (LD a) LD_INF \<longleftrightarrow> True"
| "ld_less LD_NEG_INF (LD b) \<longleftrightarrow> True"
| "ld_less LD_NEG_INF LD_INF \<longleftrightarrow> True"
| "ld_less _ _ \<longleftrightarrow> False"

fun ld_less_eq :: "long_double \<Rightarrow> long_double \<Rightarrow> bool" where
  "ld_less_eq (LD a) (LD b) \<longleftrightarrow> a \<le> b"
| "ld_less_eq (LD a) LD_INF \<longleftrightarrow> True"
| "ld_less_eq LD_NEG_INF (LD b) \<longleftrightarrow> True"
| "ld_less_eq LD_NEG_INF LD_INF \<longleftrightarrow> True"
| "ld_less_eq LD_INF LD_INF \<longleftrightarrow> True"
| "ld_less_eq LD_NEG_INF LD_NEG_INF \<longleftrightarrow> True"
| "ld_less_eq _ _ \<longleftrightarrow> False"

fun ld_equal :: "long_double \<Rightarrow> long_double \<Rightarrow> bool" where
  "ld_equal (LD a) (LD b) \<longleftrightarrow> a = b"
| "ld_equal LD_INF LD_INF \<longleftrightarrow> True"
| "ld_equal LD_NEG_INF LD_NEG_INF \<longleftrightarrow> True"
| "ld_equal _ _ \<longleftrightarrow> False"

fun ld_neg :: "long_double \<Rightarrow> long_double" where
  "ld_neg (LD a) = LD (- a)"
| "ld_neg LD_INF = LD_NEG_INF"
| "ld_neg LD_NEG_INF = LD_INF"
| "ld_neg LD_NAN = LD_NAN"

fun finitel :: "long_double \<Rightarrow> bool" where
  "finitel (LD a) \<longleftrightarrow> True"
| "finitel _ \<longleftrightarrow> False"


type_synonym sfptpd_time_t = long_double

text \<open>\<open>struct sfptpd_timespec\<close>: seconds, nanoseconds and a binary fraction of a
  nanosecond (in units of \<open>2^-32\<close> ns).\<close>

record sfptpd_timespec =
  sec :: int
  nsec :: nat
  nsec_frac :: nat

text \<open>Modelled from the spec: the helpers of \<open>sfptpd_time.h\<close> for
  \<open>struct sfptpd_timespec\<close> are not among the sources. \<open>sfptpd_time_null\<close> is the
  zero time (\<open>sfptpd_time_zero\<close> stores it); the difference of two times and their
  order are those of their values. The conversion
  \<open>sfptpd_time_timespec_to_float_ns\<close> is left to the environment. The names carry \<open>timespec\<close> where the clock feed's file uses
  the same helper name on \<open>struct timespec\<close>.\<close>

definition sfptpd_time_null :: sfptpd_timespec where
  "sfptpd_time_null = \<lparr>sec = 0, nsec = 0, nsec_frac = 0\<rparr>"

definition sfptpd_timespec_units :: "sfptpd_timespec \<Rightarrow> int" where
  "sfptpd_timespec_units t =
     (sec t * 1000000000 + int (nsec t)) * 4294967296 + int (nsec_frac t)"

definition sfptpd_timespec_of_units :: "int \<Rightarrow> sfptpd_timespec" where
  "sfptpd_timespec_of_units u =
     \<lparr>sec = u div (1000000000 * 4294967296),
      nsec = nat ((u div 4294967296) mod 1000000000),
      nsec_frac = nat (u mod 4294967296)\<rparr>"

definition sfptpd_timespec_subtract :: "sfptpd_timespec \<Rightarrow> sfptpd_timespec \<Rightarrow> sfptpd_timespec" where
  "sfptpd_timespec_subtract a b =
     sfptpd_timespec_of_units (sfptpd_timespec_units a - sfptpd_timespec_units b)"

definition sfptpd_timespec_is_greater_or_equal :: "sfptpd_timespec \<Rightarrow> sfptpd_timespec \<Rightarrow> bool" where
  "sfptpd_timespec_is_greater_or_equal a b \<longleftrightarrow>
     sfptpd_timespec_units a \<ge> sfptpd_timespec_units b"

subsection \<open>Constants\<close>

definition SHM_REQUIRED_GOOD_PERIODS :: "64 word" where
  "SHM_REQUIRED_GOOD_PERIODS = 3"

definition SHM_CLOCK_STEP_THRESHOLD :: long_double where
  "SHM_CLOCK_STEP_THRESHOLD = LD 500000000"

definition shm_timeout_interval :: sfptpd_timespec where
  "shm_timeout_interval = \<lparr>sec = 60, nsec = 0, nsec_frac = 0\<rparr>"

definition shm_alarm_interval :: sfptpd_timespec where
  "shm_alarm_interval = \<lparr>sec = 1, nsec = 100000000, nsec_frac = 0\<rparr>"

definition UINT32_MAX :: "32 word" where
  "UINT32_MAX = - 1"

text \<open>\<open>sfptpd_sync_module_state_t\<close>, in the order of the table in
  \<open>shm_state_text\<close>.\<close>

datatype sfptpd_sync_module_state =
    SYNC_MODULE_STATE_LISTENING
  | SYNC_MODULE_STATE_SLAVE
  | SYNC_MODULE_STATE_MASTER
  | SYNC_MODULE_STATE_PASSIVE
  | SYNC_MODULE_STATE_DISABLED
  | SYNC_MODULE_STATE_FAULTY
  | SYNC_MODULE_STATE_SELECTION

text \<open>\<open>enum sfptpd_clock_ctrl\<close>: the three policies the file names, and any other.\<close>

datatype sfptpd_clock_ctrl =
    SFPTPD_CLOCK_CTRL_SLEW_AND_STEP
  | SFPTPD_CLOCK_CTRL_STEP_AT_STARTUP
  | SFPTPD_CLOCK_CTRL_STEP_FORWARD
  | SFPTPD_CLOCK_CTRL_OTHER

text \<open>Modelled from the spec: the control flags and the alarms are bits of a word; the
  header that numbers them is not among the sources. The spec names the flags
  \<open>TIMESTAMP_PROCESSING\<close>, \<open>CLOCK_CTRL\<close>, \<open>SELECTED\<close> and
  \<open>CLUSTERING_DETERMINANT\<close> and the alarms \<open>NO_SIGNAL\<close>, \<open>SEQ_NUM_ERROR\<close>,
  \<open>BAD_SIGNAL\<close> and \<open>NO_TIME_OF_DAY\<close>; each is one bit here, and no theorem depends
  on which. \<open>SYNC_MODULE_ALARM_SET\<close>, \<open>_CLEAR\<close> and \<open>_TEST\<close> set, clear and test
  the bit.\<close>

definition SYNC_MODULE_SELECTED :: "32 word" where "SYNC_MODULE_SELECTED = 1"
definition SYNC_MODULE_TIMESTAMP_PROCESSING :: "32 word" where "SYNC_MODULE_TIMESTAMP_PROCESSING = 2"
definition SYNC_MODULE_CLOCK_CTRL :: "32 word" where "SYNC_MODULE_CLOCK_CTRL = 4"
definition SYNC_MODULE_CLUSTERING_DETERMINANT :: "32 word" where "SYNC_MODULE_CLUSTERING_DETERMINANT = 16"

definition SYNC_MODULE_ALARM_SHM_NO_SIGNAL :: "32 word" where "SYNC_MODULE_ALARM_SHM_NO_SIGNAL = 1"
definition SYNC_MODULE_ALARM_SHM_SEQ_NUM_ERROR :: "32 word" where "SYNC_MODULE_ALARM_SHM_SEQ_NUM_ERROR = 2"
definition SYNC_MODULE_ALARM_NO_TIME_OF_DAY :: "32 word" where "SYNC_MODULE_ALARM_NO_TIME_OF_DAY = 4"
definition SYNC_MODULE_ALARM_SHM_BAD_SIGNAL :: "32 word" where "SYNC_MODULE_ALARM_SHM_BAD_SIGNAL = 8"

definition SYNC_MODULE_ALARM_SET :: "32 word \<Rightarrow> 32 word \<Rightarrow> 32 word" where
  "SYNC_MODULE_ALARM_SET alarms a = alarms OR a"

definition SYNC_MODULE_ALARM_CLEAR :: "32 word \<Rightarrow> 32 word \<Rightarrow> 32 word" where
  "SYNC_MODULE_ALARM_CLEAR alarms a = alarms AND NOT a"

definition SYNC_MODULE_ALARM_TEST :: "32 word \<Rightarrow> 32 word \<Rightarrow> bool" where
  "SYNC_MODULE_ALARM_TEST alarms a \<longleftrightarrow> alarms AND a \<noteq> 0"

subsection \<open>Data\<close>

text \<open>The \<open>counters\<close> of an instance (\<open>unsigned int\<close>).\<close>

record shm_counters =
  clock_steps :: "32 word"
  seq_num_errors :: "32 word"
  bad_signal_errors :: "32 word"
  outliers :: "32 word"

text \<open>\<open>struct sfptpd_shm_instance\<close>: the fields that the functions below read or
  write. The filters and the convergence measure are objects of other modules; their
  states are the type parameters. \<open>outlier_filter\<close> is a pointer, \<open>None\<close> when
  \<open>NULL\<close>. \<open>propagation_delay\<close> is \<open>config->propagation_delay\<close>.\<close>

record ('fir, 'pid, 'peirce, 'conv) sfptpd_shm_instance =
  propagation_delay :: sfptpd_time_t
  ctrl_flags :: "32 word"
  freq_adjust_max :: long_double
  state :: sfptpd_sync_module_state
  alarms :: "32 word"
  last_shm_time :: sfptpd_timespec
  shm_timestamp :: sfptpd_timespec
  shm_seq_num :: "32 word"
  outlier_filter :: "'peirce option"
  fir_filter :: 'fir
  pid_filter :: 'pid
  convergence :: 'conv
  offset_from_master_ns :: long_double
  freq_adjust_base :: long_double
  freq_adjust_ppb :: long_double
  servo_active :: bool
  shm_period_ns :: long_double
  synchronized :: bool
  prev_state :: sfptpd_sync_module_state
  prev_alarms :: "32 word"
  consecutive_good_periods :: "64 word"
  clustering_score :: int
  step_occurred :: bool
  counters :: shm_counters

text \<open>\<open>shm_module_t\<close>: the status of the time-of-day module that the functions
  below read or write (\<open>time_of_day.status.state\<close> and
  \<open>time_of_day.status.offset_from_master\<close>).\<close>

record sfptpd_shm_module =
  time_of_day_state :: sfptpd_sync_module_state
  time_of_day_offset_from_master :: sfptpd_timespec

text \<open>What the instance calls in other modules, and what it reads from them: the
  filter kit and the convergence measure (each function takes the state of its object
  and returns the new state with its result), the clustering evaluator's \<open>calc_fn\<close>,
  the clock control policy \<open>clocks.control\<close> of the general configuration, the saved
  frequency correction of the clock, the return code and time of
  \<open>sfclock_gettime(CLOCK_MONOTONIC)\<close>, the conversion of a time to nanoseconds, and
  the platform's \<open>long double\<close> addition and subtraction. The notch filter is set once
  and is part of its function here.\<close>

record ('fir, 'pid, 'peirce, 'conv) shm_env =
  sfptpd_fir_filter_reset :: "'fir \<Rightarrow> 'fir"
  sfptpd_fir_filter_update :: "'fir \<Rightarrow> long_double \<Rightarrow> 'fir \<times> long_double"
  sfptpd_pid_filter_reset :: "'pid \<Rightarrow> 'pid"
  sfptpd_pid_filter_update :: "'pid \<Rightarrow> long_double \<Rightarrow> 'pid \<times> long_double"
  sfptpd_notch_filter_update :: "long_double \<Rightarrow> int"
  sfptpd_peirce_filter_reset :: "'peirce \<Rightarrow> 'peirce"
  sfptpd_peirce_filter_update :: "'peirce \<Rightarrow> long_double \<Rightarrow> 'peirce \<times> int"
  sfptpd_stats_convergence_reset :: "'conv \<Rightarrow> 'conv"
  sfptpd_stats_convergence_update :: "'conv \<Rightarrow> int \<Rightarrow> long_double \<Rightarrow> 'conv \<times> bool"
  clustering_calc_fn :: "long_double \<Rightarrow> int"
  clocks_control :: sfptpd_clock_ctrl
  sfptpd_clock_get_freq_correction :: long_double
  sfclock_gettime_monotonic :: "int \<times> sfptpd_timespec"
  sfptpd_time_timespec_to_float_ns :: "sfptpd_timespec \<Rightarrow> long_double"
  long_double_add :: "long_double \<Rightarrow> long_double \<Rightarrow> long_double"
  long_double_sub :: "long_double \<Rightarrow> long_double \<Rightarrow> long_double"

text \<open>The commands the instance gives to the clock, to the time-of-day module and to
  the engine, in the order given. Logging, trace output and the statistics posted to the
  engine do not come back to the instance and are left out.\<close>

datatype shm_effect =
    CLOCK_ADJUST_TIME sfptpd_timespec
  | CLOCK_ADJUST_FREQUENCY long_double
  | SYNC_MODULE_STEP_CLOCK sfptpd_timespec
  | ENGINE_CLUSTERING_INPUT long_double bool

subsection \<open>The servo\<close>

definition shm_servo_reset ::
  "('fir, 'pid, 'peirce, 'conv) shm_env \<Rightarrow> sfptpd_shm_module
     \<Rightarrow> ('fir, 'pid, 'peirce, 'conv) sfptpd_shm_instance
     \<Rightarrow> sfptpd_shm_module \<times> ('fir, 'pid, 'peirce, 'conv) sfptpd_shm_instance" where
  "shm_servo_reset env shmod inst =
     (shmod\<lparr>time_of_day_offset_from_master := sfptpd_time_null\<rparr>,
      inst\<lparr>fir_filter := sfptpd_fir_filter_reset env (fir_filter inst),
           pid_filter := sfptpd_pid_filter_reset env (pid_filter inst),
           freq_adjust_base := sfptpd_clock_get_freq_correction env,
           freq_adjust_ppb := sfptpd_clock_get_freq_correction env,
           offset_from_master_ns := 0,
           shm_timestamp := sfptpd_time_null,
           shm_period_ns := 0\<rparr>)"

text \<open>The clock calls may fail; the code then only warns.\<close>

definition shm_servo_step_clock ::
  "('fir, 'pid, 'peirce, 'conv) shm_env \<Rightarrow> sfptpd_shm_module
     \<Rightarrow> ('fir, 'pid, 'peirce, 'conv) sfptpd_shm_instance \<Rightarrow> sfptpd_timespec
     \<Rightarrow> sfptpd_shm_module \<times> ('fir, 'pid, 'peirce, 'conv) sfptpd_shm_instance
         \<times> shm_effect list" where
  "shm_servo_step_clock env shmod inst offset =
     (let (shmod', inst') = shm_servo_reset env shmod inst
      in (shmod', inst'\<lparr>step_occurred := True\<rparr>,
          [CLOCK_ADJUST_TIME (sfptpd_timespec_subtract sfptpd_time_null offset),
           CLOCK_ADJUST_FREQUENCY (sfptpd_clock_get_freq_correction env),
           SYNC_MODULE_STEP_CLOCK sfptpd_time_null]))"

text \<open>The parts of \<open>shm_servo_update\<close>: the difference \<open>diff\<close> (seconds from the
  time of day, rounded; nanoseconds from the SHM timestamp), the offset \<open>diff_ns\<close> as
  the code computes it in \<open>long double\<close>, and the condition of the two nested
  \<open>if\<close>s that lead to the early \<open>return\<close>, tested on that computed offset.\<close>

definition shm_servo_diff :: "sfptpd_timespec \<Rightarrow> sfptpd_timespec \<Rightarrow> sfptpd_timespec" where
  "shm_servo_diff shm_ts time_of_day =
     (let s1 = (if nsec time_of_day \<ge> 500000000 then sec time_of_day + 1 else sec time_of_day);
          s2 = (if nsec shm_ts \<ge> 500000000 then s1 - 1 else s1)
      in \<lparr>sec = s2, nsec = nsec shm_ts, nsec_frac = 0\<rparr>)"

definition shm_servo_diff_ns ::
  "('fir, 'pid, 'peirce, 'conv) shm_env \<Rightarrow> ('fir, 'pid, 'peirce, 'conv) sfptpd_shm_instance
     \<Rightarrow> sfptpd_timespec \<Rightarrow> sfptpd_timespec \<Rightarrow> sfptpd_time_t" where
  "shm_servo_diff_ns env inst shm_ts time_of_day =
     long_double_sub env
       (sfptpd_time_timespec_to_float_ns env (shm_servo_diff shm_ts time_of_day))
       (propagation_delay inst)"

definition shm_servo_step_due ::
  "sfptpd_clock_ctrl \<Rightarrow> ('fir, 'pid, 'peirce, 'conv) sfptpd_shm_instance \<Rightarrow> sfptpd_time_t
     \<Rightarrow> bool" where
  "shm_servo_step_due clock_ctrl inst diff_ns \<longleftrightarrow>
     (clock_ctrl = SFPTPD_CLOCK_CTRL_SLEW_AND_STEP \<or>
      (clock_ctrl = SFPTPD_CLOCK_CTRL_STEP_AT_STARTUP \<and> \<not> servo_active inst) \<or>
      (clock_ctrl = SFPTPD_CLOCK_CTRL_STEP_FORWARD \<and> ld_less diff_ns 0)) \<and>
     (ld_less_eq diff_ns (ld_neg SHM_CLOCK_STEP_THRESHOLD) \<or>
      ld_less_eq SHM_CLOCK_STEP_THRESHOLD diff_ns)"

definition shm_servo_update ::
  "('fir, 'pid, 'peirce, 'conv) shm_env \<Rightarrow> sfptpd_shm_module
     \<Rightarrow> ('fir, 'pid, 'peirce, 'conv) sfptpd_shm_instance \<Rightarrow> sfptpd_timespec
     \<Rightarrow> sfptpd_timespec
     \<Rightarrow> sfptpd_shm_module \<times> ('fir, 'pid, 'peirce, 'conv) sfptpd_shm_instance
         \<times> shm_effect list" where
  "shm_servo_update env shmod inst shm_ts time_of_day =
     (let diff = shm_servo_diff shm_ts time_of_day;
          diff_ns = shm_servo_diff_ns env inst shm_ts time_of_day
      in if shm_servo_step_due (clocks_control env) inst diff_ns then
           (if ctrl_flags inst AND SYNC_MODULE_CLOCK_CTRL \<noteq> 0 then
              (let (shmod', inst', effs) = shm_servo_step_clock env shmod inst diff
               in (shmod',
                   inst'\<lparr>counters := (counters inst')\<lparr>clock_steps := clock_steps (counters inst') + 1\<rparr>,
                         servo_active := True\<rparr>,
                   effs))
            else (shmod, inst, []))
         else
           (let (fir', mean) = sfptpd_fir_filter_update env (fir_filter inst) diff_ns;
                inst1 = inst\<lparr>fir_filter := fir', offset_from_master_ns := mean,
                             freq_adjust_ppb := freq_adjust_base inst\<rparr>
            in if ctrl_flags inst1 AND SYNC_MODULE_CLOCK_CTRL \<noteq> 0 then
                 (let (pid', out) = sfptpd_pid_filter_update env (pid_filter inst1) mean;
                      ppb = long_double_add env (freq_adjust_ppb inst1) out;
                      ppb' = (if ld_less (freq_adjust_max inst1) ppb then freq_adjust_max inst1
                              else if ld_less ppb (ld_neg (freq_adjust_max inst1))
                              then ld_neg (freq_adjust_max inst1)
                              else ppb)
                  in (shmod,
                      inst1\<lparr>pid_filter := pid', freq_adjust_ppb := ppb', servo_active := True\<rparr>,
                      [CLOCK_ADJUST_FREQUENCY ppb']))
               else (shmod, inst1, [])))"

subsection \<open>Convergence\<close>

definition shm_convergence_update ::
  "('fir, 'pid, 'peirce, 'conv) shm_env \<Rightarrow> ('fir, 'pid, 'peirce, 'conv) sfptpd_shm_instance
     \<Rightarrow> ('fir, 'pid, 'peirce, 'conv) sfptpd_shm_instance" where
  "shm_convergence_update env inst =
     (let (rc, time) = sfclock_gettime_monotonic env
      in if rc < 0 \<or> state inst \<noteq> SYNC_MODULE_STATE_SLAVE then
           inst\<lparr>synchronized := False,
                convergence := sfptpd_stats_convergence_reset env (convergence inst)\<rparr>
         else if alarms inst \<noteq> 0 \<or>
                 ctrl_flags inst AND SYNC_MODULE_TIMESTAMP_PROCESSING = 0 then
           inst
         else
           (let (conv', sync) = sfptpd_stats_convergence_update env (convergence inst)
                                  (sec time) (offset_from_master_ns inst)
            in inst\<lparr>synchronized := sync, convergence := conv'\<rparr>))"

subsection \<open>The state machine\<close>

definition shm_state_machine_reset ::
  "('fir, 'pid, 'peirce, 'conv) shm_env \<Rightarrow> ('fir, 'pid, 'peirce, 'conv) sfptpd_shm_instance
     \<Rightarrow> ('fir, 'pid, 'peirce, 'conv) sfptpd_shm_instance" where
  "shm_state_machine_reset env inst =
     inst\<lparr>state := SYNC_MODULE_STATE_LISTENING,
          prev_state := SYNC_MODULE_STATE_LISTENING,
          alarms := 0,
          prev_alarms := 0,
          consecutive_good_periods := 0,
          shm_timestamp := sfptpd_time_null,
          shm_seq_num := 0,
          shm_period_ns := 0,
          outlier_filter := map_option (sfptpd_peirce_filter_reset env) (outlier_filter inst)\<rparr>"

text \<open>The handlers of a poll return \<open>None\<close> where \<open>assert(false)\<close> stops the
  process: the instance is in a state other than listening, slave and faulty.\<close>

definition shm_on_no_shm_event ::
  "('fir, 'pid, 'peirce, 'conv) shm_env \<Rightarrow> ('fir, 'pid, 'peirce, 'conv) sfptpd_shm_instance
     \<Rightarrow> ('fir, 'pid, 'peirce, 'conv) sfptpd_shm_instance option" where
  "shm_on_no_shm_event env inst =
     (case state inst of
        SYNC_MODULE_STATE_LISTENING \<Rightarrow> Some inst
      | SYNC_MODULE_STATE_SLAVE \<Rightarrow>
          (let time_now = snd (sfclock_gettime_monotonic env);
               interval = sfptpd_timespec_subtract time_now (last_shm_time inst)
           in if sfptpd_timespec_is_greater_or_equal interval shm_timeout_interval then
                Some (shm_state_machine_reset env inst)
              else if sfptpd_timespec_is_greater_or_equal interval shm_alarm_interval \<and>
                      \<not> SYNC_MODULE_ALARM_TEST (alarms inst) SYNC_MODULE_ALARM_SHM_NO_SIGNAL then
                Some (inst\<lparr>alarms :=
                        SYNC_MODULE_ALARM_SET (alarms inst) SYNC_MODULE_ALARM_SHM_NO_SIGNAL\<rparr>)
              else Some inst)
      | SYNC_MODULE_STATE_FAULTY \<Rightarrow> Some (shm_state_machine_reset env inst)
      | _ \<Rightarrow> None)"

text \<open>\<open>err\<close> is the argument \<open>rc\<close>, asserted not to be 0.\<close>

definition shm_on_shm_error ::
  "('fir, 'pid, 'peirce, 'conv) shm_env \<Rightarrow> ('fir, 'pid, 'peirce, 'conv) sfptpd_shm_instance
     \<Rightarrow> int \<Rightarrow> ('fir, 'pid, 'peirce, 'conv) sfptpd_shm_instance option" where
  "shm_on_shm_error env inst err =
     (if err = 0 then None
      else case state inst of
        SYNC_MODULE_STATE_LISTENING \<Rightarrow>
          Some ((shm_state_machine_reset env inst)\<lparr>state := SYNC_MODULE_STATE_FAULTY\<rparr>)
      | SYNC_MODULE_STATE_SLAVE \<Rightarrow>
          Some ((shm_state_machine_reset env inst)\<lparr>state := SYNC_MODULE_STATE_FAULTY\<rparr>)
      | SYNC_MODULE_STATE_FAULTY \<Rightarrow> Some inst
      | _ \<Rightarrow> None)"

text \<open>The \<open>SYNC_MODULE_STATE_SLAVE\<close> case of the \<open>switch\<close> in
  \<open>shm_on_shm_event\<close>, up to its \<open>break\<close>.\<close>

definition shm_on_shm_event_slave ::
  "('fir, 'pid, 'peirce, 'conv) shm_env \<Rightarrow> sfptpd_shm_module
     \<Rightarrow> ('fir, 'pid, 'peirce, 'conv) sfptpd_shm_instance \<Rightarrow> 32 word \<Rightarrow> sfptpd_timespec
     \<Rightarrow> sfptpd_shm_module \<times> ('fir, 'pid, 'peirce, 'conv) sfptpd_shm_instance
         \<times> shm_effect list" where
  "shm_on_shm_event_slave env shmod inst seq_num time =
     (let i1 = inst\<lparr>alarms :=
                 SYNC_MODULE_ALARM_CLEAR (alarms inst) SYNC_MODULE_ALARM_SHM_NO_SIGNAL\<rparr>;
          i2 = (if seq_num \<noteq> UINT32_MAX \<and> seq_num \<noteq> shm_seq_num i1 + 1
                then i1\<lparr>alarms :=
                          SYNC_MODULE_ALARM_SET (alarms i1) SYNC_MODULE_ALARM_SHM_SEQ_NUM_ERROR,
                        counters := (counters i1)
                          \<lparr>seq_num_errors := seq_num_errors (counters i1) + 1\<rparr>\<rparr>
                else i1\<lparr>alarms :=
                          SYNC_MODULE_ALARM_CLEAR (alarms i1) SYNC_MODULE_ALARM_SHM_SEQ_NUM_ERROR\<rparr>)
      in if ctrl_flags i2 AND SYNC_MODULE_TIMESTAMP_PROCESSING = 0 then (shmod, i2, [])
         else if step_occurred i2 then
           (shmod, i2\<lparr>step_occurred := False, shm_timestamp := sfptpd_time_null\<rparr>, [])
         else
           (let i3 = (if sec (shm_timestamp i2) \<noteq> 0 then
                        (let period = sfptpd_time_timespec_to_float_ns env
                                        (sfptpd_timespec_subtract time (shm_timestamp i2));
                             i = i2\<lparr>shm_period_ns := period\<rparr>
                         in if sfptpd_notch_filter_update env period \<noteq> 0
                            then i\<lparr>alarms :=
                                     SYNC_MODULE_ALARM_SET (alarms i) SYNC_MODULE_ALARM_SHM_BAD_SIGNAL,
                                   counters := (counters i)
                                     \<lparr>bad_signal_errors := bad_signal_errors (counters i) + 1\<rparr>,
                                   consecutive_good_periods := 0\<rparr>
                            else i\<lparr>consecutive_good_periods := consecutive_good_periods i + 1\<rparr>)
                      else i2)
            in if consecutive_good_periods i3 \<ge> SHM_REQUIRED_GOOD_PERIODS then
                 (let i4 = i3\<lparr>alarms :=
                             SYNC_MODULE_ALARM_CLEAR (alarms i3) SYNC_MODULE_ALARM_SHM_BAD_SIGNAL\<rparr>;
                      (i5, rc) =
                        (case outlier_filter i4 of
                           None \<Rightarrow> (i4, 0)
                         | Some f \<Rightarrow>
                             (let (f', r) = sfptpd_peirce_filter_update env f (shm_period_ns i4)
                              in (if r \<noteq> 0
                                  then i4\<lparr>outlier_filter := Some f',
                                          counters := (counters i4)
                                            \<lparr>outliers := outliers (counters i4) + 1\<rparr>\<rparr>
                                  else i4\<lparr>outlier_filter := Some f'\<rparr>, r)))
                  in if rc = 0 then
                       (let (shmod', i6, effs) =
                              shm_servo_update env shmod i5 time (time_of_day_offset_from_master shmod);
                            offset = offset_from_master_ns i6;
                            effs' = (if ctrl_flags i6 AND SYNC_MODULE_CLUSTERING_DETERMINANT \<noteq> 0
                                     then [ENGINE_CLUSTERING_INPUT offset
                                             (finitel offset \<and> \<not> ld_equal offset 0 \<and>
                                              state i6 = SYNC_MODULE_STATE_SLAVE)]
                                     else [])
                        in (shmod', i6\<lparr>clustering_score := clustering_calc_fn env offset\<rparr>,
                            effs @ effs'))
                     else (shmod, i5, []))
               else (shmod, i3, [])))"

definition shm_on_shm_event ::
  "('fir, 'pid, 'peirce, 'conv) shm_env \<Rightarrow> sfptpd_shm_module
     \<Rightarrow> ('fir, 'pid, 'peirce, 'conv) sfptpd_shm_instance \<Rightarrow> 32 word \<Rightarrow> sfptpd_timespec
     \<Rightarrow> (sfptpd_shm_module \<times> ('fir, 'pid, 'peirce, 'conv) sfptpd_shm_instance
          \<times> shm_effect list) option" where
  "shm_on_shm_event env shmod inst seq_num time =
     (let switched =
            (case state inst of
               SYNC_MODULE_STATE_FAULTY \<Rightarrow>
                 Some (shmod, inst\<lparr>state := SYNC_MODULE_STATE_SLAVE, shm_period_ns := 0\<rparr>, [])
             | SYNC_MODULE_STATE_LISTENING \<Rightarrow>
                 Some (shmod, inst\<lparr>state := SYNC_MODULE_STATE_SLAVE, shm_period_ns := 0\<rparr>, [])
             | SYNC_MODULE_STATE_SLAVE \<Rightarrow> Some (shm_on_shm_event_slave env shmod inst seq_num time)
             | _ \<Rightarrow> None)
      in case switched of
           None \<Rightarrow> None
         | Some (shmod', i, effs) \<Rightarrow>
             (let i' = i\<lparr>shm_seq_num := seq_num,
                        last_shm_time := snd (sfclock_gettime_monotonic env)\<rparr>
              in Some (shmod',
                       (if ctrl_flags i' AND SYNC_MODULE_TIMESTAMP_PROCESSING \<noteq> 0
                        then i'\<lparr>shm_timestamp := time\<rparr> else i'),
                       effs)))"

subsection \<open>The control message\<close>

definition shm_on_control ::
  "('fir, 'pid, 'peirce, 'conv) shm_env \<Rightarrow> ('fir, 'pid, 'peirce, 'conv) sfptpd_shm_instance
     \<Rightarrow> 32 word \<Rightarrow> 32 word \<Rightarrow> ('fir, 'pid, 'peirce, 'conv) sfptpd_shm_instance" where
  "shm_on_control env inst ctl_mask ctl_flags =
     (let new_flags = (ctrl_flags inst AND NOT ctl_mask) OR (ctl_flags AND ctl_mask);
          i1 = (if ctrl_flags inst AND SYNC_MODULE_CLOCK_CTRL \<noteq> 0 \<and>
                   new_flags AND SYNC_MODULE_CLOCK_CTRL = 0
                then inst\<lparr>pid_filter := sfptpd_pid_filter_reset env (pid_filter inst)\<rparr>
                else inst);
          i2 = (if ctrl_flags inst AND SYNC_MODULE_TIMESTAMP_PROCESSING \<noteq> 0 \<and>
                   new_flags AND SYNC_MODULE_TIMESTAMP_PROCESSING = 0
                then i1\<lparr>shm_timestamp := sfptpd_time_null\<rparr>
                else i1)
      in i2\<lparr>ctrl_flags := new_flags\<rparr>)"

section \<open>Example states\<close>

subsection \<open>Example states of the clock feed\<close>

definition ok_sample :: sfptpd_clockfeed_sample where
  "ok_sample = \<lparr>seq = 0, rc = 0, mono = \<lparr>tv_sec = 100, tv_nsec = 0\<rparr>,
                 system = \<lparr>tv_sec = 1000, tv_nsec = 0\<rparr>,
                 snapshot = \<lparr>tv_sec = 1000, tv_nsec = 3500\<rparr>\<rparr>"

definition fresh_sub :: sfptpd_clockfeed_sub where
  "fresh_sub = calloc_sub\<lparr>source := 1, read_counter := - 1, min_counter := - 1\<rparr>"

text \<open>A source that has been polled once, with success.\<close>

definition polled_source :: clockfeed_source where
  "polled_source = calloc_source\<lparr>clock := 7,
     shm := \<lparr>samples = (\<lambda>_. ok_sample), write_counter = 1\<rparr>\<rparr>"

text \<open>A source that has been polled once, the clock comparison failing with error 5.\<close>

definition failed_sample_source :: clockfeed_source where
  "failed_sample_source = calloc_source\<lparr>clock := 7,
     shm := \<lparr>samples = (\<lambda>_. ok_sample\<lparr>rc := 5, snapshot := timespec_zero\<rparr>),
             write_counter = 1\<rparr>\<rparr>"

text \<open>A source that was removed before its first poll.\<close>

definition removed_source :: clockfeed_source where
  "removed_source = calloc_source\<lparr>clock := 7, subscribers := [1], src_inactive := True\<rparr>"

definition quiet_env :: reader_env where
  "quiet_env = \<lparr>clock_is_active = True, write_counter_reread = 1,
                 now_mono = Some \<lparr>tv_sec = 100, tv_nsec = 5\<rparr>\<rparr>"

definition empty_feed :: sfptpd_clockfeed where
  "empty_feed = \<lparr>poll_period_log2 = 0, running_phase = True, active = [], inactive = [],
                  event_subscribers = [NULL, NULL, NULL, NULL],
                  sources = Map.empty, subs = Map.empty\<rparr>"

definition full_feed :: sfptpd_clockfeed where
  "full_feed = empty_feed\<lparr>event_subscribers := [1, 2, 3, 4]\<rparr>"

text \<open>A feed with one source that was removed while subscription 1 still held it.\<close>

definition zombie_feed :: sfptpd_clockfeed where
  "zombie_feed = empty_feed\<lparr>inactive := [1], sources := [1 \<mapsto> removed_source],
                            subs := [1 \<mapsto> fresh_sub]\<rparr>"

subsection \<open>Example states of the SHM servo\<close>

text \<open>An arithmetic for the examples: exact sums and differences (no rounding), with
  the infinities and the NaN as in IEEE arithmetic, and the product by a positive
  factor.\<close>

fun exact_add :: "long_double \<Rightarrow> long_double \<Rightarrow> long_double" where
  "exact_add (LD a) (LD b) = LD (a + b)"
| "exact_add LD_NAN _ = LD_NAN"
| "exact_add _ LD_NAN = LD_NAN"
| "exact_add LD_INF LD_NEG_INF = LD_NAN"
| "exact_add LD_NEG_INF LD_INF = LD_NAN"
| "exact_add LD_INF _ = LD_INF"
| "exact_add _ LD_INF = LD_INF"
| "exact_add LD_NEG_INF _ = LD_NEG_INF"
| "exact_add _ LD_NEG_INF = LD_NEG_INF"

definition exact_sub :: "long_double \<Rightarrow> long_double \<Rightarrow> long_double" where
  "exact_sub a b = exact_add a (ld_neg b)"

fun exact_scale :: "real \<Rightarrow> long_double \<Rightarrow> long_double" where
  "exact_scale c (LD a) = LD (c * a)"
| "exact_scale c x = x"

text \<open>Modelled from the spec: a filter kit for the examples, after section 4.3 of
  the spec. The FIR filter has size 1, which passes each sample on; the PID controller
  has \<open>kp = 0.4\<close>, \<open>ki = 0.03\<close>, \<open>kd = 0\<close> and its state is the integral; the notch
  filter passes periods within \<open>10^8\<close> ns of \<open>10^9\<close> ns; there is no outlier
  filter; the convergence measure keeps the time since which the offset has stayed
  within 100 microseconds and reports convergence after 60 s. The policy is
  \<open>SLEW_AND_STEP\<close> and the clock has no saved frequency correction. A time converts
  to its value in nanoseconds.\<close>

definition example_env :: "(long_double list, long_double, unit, int option) shm_env" where
  "example_env =
     \<lparr>sfptpd_fir_filter_reset = (\<lambda>_. []),
      sfptpd_fir_filter_update = (\<lambda>xs x. ([x], x)),
      sfptpd_pid_filter_reset = (\<lambda>_. 0),
      sfptpd_pid_filter_update =
        (\<lambda>i e. (exact_add i e,
                 exact_add (exact_scale 0.4 e) (exact_scale 0.03 (exact_add i e)))),
      sfptpd_notch_filter_update =
        (\<lambda>p. case p of
                LD x \<Rightarrow> (if \<bar>x - 1000000000\<bar> \<le> 100000000 then 0 else 34)
              | _ \<Rightarrow> 34),
      sfptpd_peirce_filter_reset = (\<lambda>f. f),
      sfptpd_peirce_filter_update = (\<lambda>f x. (f, 0)),
      sfptpd_stats_convergence_reset = (\<lambda>_. None),
      sfptpd_stats_convergence_update =
        (\<lambda>c t off. case off of
                     LD x \<Rightarrow>
                       (if \<bar>x\<bar> \<le> 100000
                        then (case c of None \<Rightarrow> (Some t, False)
                              | Some t0 \<Rightarrow> (Some t0, t - t0 \<ge> 60))
                        else (None, False))
                   | _ \<Rightarrow> (None, False)),
      clustering_calc_fn = (\<lambda>_. 1),
      clocks_control = SFPTPD_CLOCK_CTRL_SLEW_AND_STEP,
      sfptpd_clock_get_freq_correction = 0,
      sfclock_gettime_monotonic = (0, \<lparr>sec = 5000, nsec = 0, nsec_frac = 0\<rparr>),
      sfptpd_time_timespec_to_float_ns =
        (\<lambda>t. LD (real_of_int (sec t) * 1000000000 + real (nsec t)
                  + real (nsec_frac t) / 4294967296)),
      long_double_add = exact_add,
      long_double_sub = exact_sub\<rparr>"

definition example_module :: sfptpd_shm_module where
  "example_module = \<lparr>time_of_day_state = SYNC_MODULE_STATE_SLAVE,
                      time_of_day_offset_from_master = sfptpd_time_null\<rparr>"

text \<open>An instance that is locked: slave, no alarm, both control flags set, offset
  2000 ns, converged.\<close>

definition slave_instance ::
  "(long_double list, long_double, unit, int option) sfptpd_shm_instance" where
  "slave_instance =
     \<lparr>propagation_delay = LD 1500,
      ctrl_flags = SYNC_MODULE_TIMESTAMP_PROCESSING OR SYNC_MODULE_CLOCK_CTRL,
      freq_adjust_max = LD 500,
      state = SYNC_MODULE_STATE_SLAVE,
      alarms = 0,
      last_shm_time = \<lparr>sec = 4999, nsec = 0, nsec_frac = 0\<rparr>,
      shm_timestamp = \<lparr>sec = 1000, nsec = 3500, nsec_frac = 0\<rparr>,
      shm_seq_num = 41,
      outlier_filter = None,
      fir_filter = [LD 2000],
      pid_filter = LD 10,
      convergence = Some 4000,
      offset_from_master_ns = LD 2000,
      freq_adjust_base = 0,
      freq_adjust_ppb = LD 12,
      servo_active = True,
      shm_period_ns = LD 1000000000,
      synchronized = True,
      prev_state = SYNC_MODULE_STATE_SLAVE,
      prev_alarms = 0,
      consecutive_good_periods = 10,
      clustering_score = 1,
      step_occurred = False,
      counters = \<lparr>clock_steps = 0, seq_num_errors = 0, bad_signal_errors = 0, outliers = 0\<rparr>\<rparr>"

text \<open>The same instance after the time-of-day module was lost: the alarm
  \<open>NO_TIME_OF_DAY\<close> is raised.\<close>

definition alarmed_instance ::
  "(long_double list, long_double, unit, int option) sfptpd_shm_instance" where
  "alarmed_instance = slave_instance\<lparr>alarms := SYNC_MODULE_ALARM_NO_TIME_OF_DAY\<rparr>"

text \<open>An instance whose interface failed while the time of day was lost.\<close>

definition faulty_instance ::
  "(long_double list, long_double, unit, int option) sfptpd_shm_instance" where
  "faulty_instance =
     (shm_state_machine_reset example_env slave_instance)
       \<lparr>state := SYNC_MODULE_STATE_FAULTY, alarms := SYNC_MODULE_ALARM_NO_TIME_OF_DAY\<rparr>"

text \<open>An instance that does not control its clock and whose saved frequency
  correction, 1000 ppb, is above the cap of 500 ppb.\<close>

definition monitoring_instance ::
  "(long_double list, long_double, unit, int option) sfptpd_shm_instance" where
  "monitoring_instance =
     slave_instance\<lparr>ctrl_flags := SYNC_MODULE_TIMESTAMP_PROCESSING,
                    freq_adjust_base := LD 1000, freq_adjust_ppb := LD 1000\<rparr>"

text \<open>The locked instance with a propagation delay that is not a number (the option
  \<open>shm_delay\<close> is read with \<open>%Lf\<close>, which takes \<open>nan\<close>, and is not checked).\<close>

definition nan_delay_instance ::
  "(long_double list, long_double, unit, int option) sfptpd_shm_instance" where
  "nan_delay_instance = slave_instance\<lparr>propagation_delay := LD_NAN\<rparr>"

definition pulse_time :: sfptpd_timespec where
  "pulse_time = \<lparr>sec = 1001, nsec = 3500, nsec_frac = 0\<rparr>"

subsection \<open>The state of the feed between two messages\<close>

text \<open>\<open>sfptpd_clockfeed_create\<close>: the zeroed module with its poll period.\<close>

definition sfptpd_clockfeed_create :: "int \<Rightarrow> sfptpd_clockfeed" where
  "sfptpd_clockfeed_create min_poll_period_log2 =
     \<lparr>poll_period_log2 = min_poll_period_log2, running_phase = False, active = [],
      inactive = [], event_subscribers = replicate MAX_EVENT_SUBSCRIBERS NULL,
      sources = Map.empty, subs = Map.empty\<rparr>"

text \<open>The invariant of the feed's lists and heap. The sources on the two lists are
  the live sources, each once; a source has its \<open>inactive\<close> flag set exactly when it is
  on the inactive list; the subscriber list of a source holds, once each, live
  subscriptions that point back to it; every live subscription is on the list of the
  live source it points to; and no source other than those in \<open>zs\<close> is inactive with
  an empty subscriber list. \<open>zs\<close> is not empty only inside a handler, between the
  unlinking and the call of \<open>clockfeed_reap_zombies\<close>.\<close>

definition feed_inv_except :: "nat set \<Rightarrow> sfptpd_clockfeed \<Rightarrow> bool" where
  "feed_inv_except zs feed \<longleftrightarrow>
     distinct (active feed @ inactive feed) \<and>
     set (active feed @ inactive feed) = dom (sources feed) \<and>
     (\<forall>p s. sources feed p = Some s \<longrightarrow>
        (src_inactive s \<longleftrightarrow> p \<in> set (inactive feed)) \<and>
        distinct (subscribers s) \<and>
        (\<forall>q \<in> set (subscribers s). \<exists>sb. subs feed q = Some sb \<and> source sb = p) \<and>
        (src_inactive s \<and> p \<notin> zs \<longrightarrow> subscribers s \<noteq> [])) \<and>
     (\<forall>q sb. subs feed q = Some sb \<longrightarrow>
        (\<exists>s. sources feed (source sb) = Some s \<and> q \<in> set (subscribers s)))"

definition feed_inv :: "sfptpd_clockfeed \<Rightarrow> bool" where
  "feed_inv feed \<longleftrightarrow> feed_inv_except {} feed"

section \<open>Properties of the clock feed\<close>

lemmas errno_defs = ENOENT_def EAGAIN_def ENOSPC_def ENODATA_def ESTALE_def EOWNERDEAD_def

subsection \<open>The truncated write counter\<close>

lemma ucast_uint:
  fixes wc :: "64 word"
  assumes "uint wc < 2147483648"
  shows "uint (ucast wc :: 32 word) = uint wc"
proof -
  have "uint wc < 2 ^ 32" using assms by simp
  thus ?thesis by (simp add: unsigned_ucast_eq take_bit_int_eq_self)
qed

lemma signed_take_bit_31: "0 \<le> (x::int) \<Longrightarrow> x < 2147483648 \<Longrightarrow> signed_take_bit 31 x = x"
  by (rule signed_take_bit_int_eq_self) simp_all

lemma writer_sint:
  fixes wc :: "64 word"
  assumes "uint wc < 2147483648"
  shows "sint (ucast wc :: 32 word) = uint wc"
proof -
  have a: "uint (ucast wc :: 32 word) = uint wc" by (rule ucast_uint[OF assms])
  have "sint (ucast wc :: 32 word) = signed_take_bit 31 (uint (ucast wc :: 32 word))"
    by (simp add: sint_uint)
  also have "\<dots> = uint wc" using a assms by (simp add: signed_take_bit_31)
  finally show ?thesis .
qed

lemma writer_zero:
  fixes wc :: "64 word"
  assumes "uint wc < 2147483648"
  shows "(ucast wc :: 32 word) = 0 \<longleftrightarrow> wc = 0"
proof -
  have "(ucast wc :: 32 word) = 0 \<longleftrightarrow> uint (ucast wc :: 32 word) = 0"
    by (simp add: uint_0_iff)
  also have "\<dots> \<longleftrightarrow> uint wc = 0" by (simp add: ucast_uint[OF assms])
  also have "\<dots> \<longleftrightarrow> wc = 0" by (simp add: uint_0_iff)
  finally show ?thesis .
qed

lemma index_mask_val: "index_mask = 15"
  by (simp add: index_mask_def MAX_CLOCK_SAMPLES_LOG2_def)

lemma int_pred_mod16: "1 \<le> (n::nat) \<Longrightarrow> (int n - 1) mod 16 = int ((n - 1) mod 16)"
  by (simp add: zmod_int)

lemma writer_index:
  fixes wc :: "64 word"
  assumes "uint wc < 2147483648" "wc \<noteq> 0"
  shows "unat (((ucast wc :: 32 word) - 1) AND index_mask) = (unat wc - 1) mod 16"
proof -
  have "uint wc \<noteq> 0" using assms(2) by (simp add: uint_0_iff)
  hence pos: "1 \<le> uint wc" using uint_ge_0[of wc] by linarith
  have "uint ((ucast wc :: 32 word) - 1) = (uint (ucast wc :: 32 word) - 1) mod 2 ^ 32"
    by (simp add: uint_word_ariths)
  also have "\<dots> = uint wc - 1" using pos assms(1) by (simp add: ucast_uint[OF assms(1)])
  finally have m: "uint ((ucast wc :: 32 word) - 1) = uint wc - 1" .
  have "((ucast wc :: 32 word) - 1) AND 15 = take_bit 4 ((ucast wc :: 32 word) - 1)"
    by (simp add: take_bit_eq_mask mask_eq_exp_minus_1)
  hence "uint (((ucast wc :: 32 word) - 1) AND 15) = take_bit 4 (uint ((ucast wc :: 32 word) - 1))"
    by (simp only: unsigned_take_bit_eq)
  hence "uint (((ucast wc :: 32 word) - 1) AND 15) = uint ((ucast wc :: 32 word) - 1) mod 2 ^ 4"
    by (simp only: take_bit_eq_mod)
  hence u: "uint (((ucast wc :: 32 word) - 1) AND index_mask) = (uint wc - 1) mod 16"
    using m by (simp add: index_mask_val)
  have "int (unat (((ucast wc :: 32 word) - 1) AND index_mask)) = (int (unat wc) - 1) mod 16"
    using u by (simp only: uint_nat)
  moreover have "1 \<le> unat wc" using pos by (simp only: uint_nat)
  ultimately have "int (unat (((ucast wc :: 32 word) - 1) AND index_mask)) = int ((unat wc - 1) mod 16)"
    by (simp only: int_pred_mod16)
  thus ?thesis by (simp only: of_nat_eq_iff)
qed

lemma writer_plus:
  fixes wc :: "64 word"
  assumes "uint wc < 2147483633"
  shows "sint ((ucast wc :: 32 word) + word_of_nat MAX_CLOCK_SAMPLES - 1) = uint wc + 15"
proof -
  have s: "uint wc < 2147483648" using assms by simp
  have e: "(ucast wc :: 32 word) + word_of_nat MAX_CLOCK_SAMPLES - 1 = ucast wc + 15"
    by (simp add: MAX_CLOCK_SAMPLES_def MAX_CLOCK_SAMPLES_LOG2_def)
  have "uint ((ucast wc :: 32 word) + 15) = (uint (ucast wc :: 32 word) + 15) mod 2 ^ 32"
    by (simp add: uint_word_ariths)
  also have "\<dots> = uint wc + 15" using assms by (simp add: ucast_uint[OF s])
  finally have u: "uint ((ucast wc :: 32 word) + 15) = uint wc + 15" .
  have "sint ((ucast wc :: 32 word) + 15) = signed_take_bit 31 (uint ((ucast wc :: 32 word) + 15))"
    by (simp add: sint_uint)
  also have "\<dots> = uint wc + 15" using u assms by (simp add: signed_take_bit_31)
  finally show ?thesis by (simp only: e)
qed

lemma word_lt_uint_a: "(a :: 64 word) < 2147483633 \<Longrightarrow> uint a < 2147483633"
  by (simp add: word_less_def)

lemma word_lt_uint_b: "(a :: 64 word) < 2147483648 \<Longrightarrow> uint a < 2147483648"
  by (simp add: word_less_def)

lemmas cts_simps = clockfeed_compare_to_sys_def Let_def

lemmas example_defs = ok_sample_def fresh_sub_def polled_source_def failed_sample_source_def
  removed_source_def quiet_env_def calloc_sub_def calloc_source_def calloc_sample_def
  timespec_zero_def NULL_def

subsection \<open>The read protocol (claim C1)\<close>

text \<open>Claim C1 as stated says that every read with a write counter of 0 returns
  \<open>EAGAIN\<close> (the spec's \<open>NO_DATA\<close>) and that every read whose second counter is at
  least 15 ahead returns \<open>ENODATA\<close> (the spec's \<open>OVERRUN\<close>). Two reads show
  otherwise. A source that was removed before its first poll has a counter of 0 and the
  read returns \<open>EOWNERDEAD\<close>; a source whose newest sample records a failed clock
  comparison returns 0 although the writer is 16 ahead at the second read.\<close>

theorem read_protocol_counterexample:
  "write_counter (shm removed_source) = 0
   \<and> ret (clockfeed_compare_to_sys fresh_sub removed_source quiet_env False False False)
       = EOWNERDEAD
   \<and> EOWNERDEAD \<noteq> EAGAIN
   \<and> write_counter (shm failed_sample_source) \<noteq> 0
   \<and> write_counter_reread (quiet_env\<lparr>write_counter_reread := 17\<rparr>)
       \<ge> write_counter (shm failed_sample_source) + 15
   \<and> ret (clockfeed_compare_to_sys fresh_sub failed_sample_source
            (quiet_env\<lparr>write_counter_reread := 17\<rparr>) False False False) = 0
   \<and> 0 \<noteq> ENODATA"
  by (simp add: cts_simps example_defs errno_defs index_mask_val)

text \<open>Claim C1, amended: for a read through a subscription whose source is not
  inactive and whose clock is active, with write counters below \<open>2^31 - 15\<close> (so that
  the \<open>int\<close> copies hold them and their sum does not overflow): if the first counter
  is 0 the read returns \<open>EAGAIN\<close>; otherwise the sample at index
  \<open>(w1 - 1) mod 16\<close> is read; if that sample records a failed comparison
  (\<open>rc \<noteq> 0\<close>) the read returns 0 with a zero difference and no overrun check;
  otherwise the difference is the sample's snapshot minus its system time, the read
  returns \<open>ENODATA\<close> if the second counter is at least \<open>w1 + 15\<close>, and does not
  return \<open>ENODATA\<close> if it is less.\<close>

theorem read_protocol:
  assumes act: "\<not> src_inactive src" "clock_is_active env"
    and r1: "write_counter (shm src) < 2147483633"
    and r2: "write_counter_reread env < 2147483648"
  shows "(write_counter (shm src) = 0 \<longrightarrow>
            ret (clockfeed_compare_to_sys sub src env w1 w2 w3) = EAGAIN)
       \<and> (write_counter (shm src) \<noteq> 0 \<longrightarrow>
           (let sample = samples (shm src) ((unat (write_counter (shm src)) - 1) mod 16);
                r = clockfeed_compare_to_sys sub src env w1 w2 w3
            in (rc sample \<noteq> 0 \<longrightarrow> ret r = 0 \<and> diff r = timespec_zero)
             \<and> (rc sample = 0 \<longrightarrow>
                   diff r = sfptpd_time_subtract (snapshot sample) (system sample)
                 \<and> (write_counter_reread env \<ge> write_counter (shm src) + 15
                      \<longrightarrow> ret r = ENODATA)
                 \<and> (write_counter_reread env < write_counter (shm src) + 15
                      \<longrightarrow> ret r \<noteq> ENODATA))))"
proof -
  let ?wc = "write_counter (shm src)"
  let ?wc2 = "write_counter_reread env"
  have u1: "uint ?wc < 2147483633" using r1 by (rule word_lt_uint_a)
  hence u1': "uint ?wc < 2147483648" by simp
  have u2: "uint ?wc2 < 2147483648" using r2 by (rule word_lt_uint_b)
  have z: "(ucast ?wc :: 32 word) = 0 \<longleftrightarrow> ?wc = 0" by (rule writer_zero[OF u1'])
  have s2: "sint (ucast ?wc2 :: 32 word) = uint ?wc2" by (rule writer_sint[OF u2])
  have p: "sint ((ucast ?wc :: 32 word) + word_of_nat MAX_CLOCK_SAMPLES - 1) = uint ?wc + 15"
    by (rule writer_plus[OF u1])
  have "uint (?wc + 15) = (uint ?wc + 15) mod 2 ^ 64" by (simp add: uint_word_ariths)
  also have "\<dots> = uint ?wc + 15" using u1 by simp
  finally have q: "uint (?wc + 15) = uint ?wc + 15" .
  have le: "?wc + 15 \<le> ?wc2 \<longleftrightarrow> uint ?wc + 15 \<le> uint ?wc2"
    by (simp only: word_le_def q)
  have lt: "?wc2 < ?wc + 15 \<longleftrightarrow> uint ?wc2 < uint ?wc + 15"
    by (simp only: word_less_def q)
  show ?thesis
  proof (cases "?wc = 0")
    case True
    then show ?thesis using act by (simp add: cts_simps)
  next
    case False
    have i: "unat (((ucast ?wc :: 32 word) - 1) AND index_mask) = (unat ?wc - 1) mod 16"
      by (rule writer_index[OF u1' False])
    show ?thesis using False act z
      by (simp add: cts_simps i s2 p le lt errno_defs)
  qed
qed

text \<open>The amended claim at three reads of live sources (a source not yet polled; a
  source polled once and read at once; the same source read when the writer has gone 16
  further): the hypotheses hold and the reads return \<open>EAGAIN\<close>, 0 with a difference of
  3500 ns, and \<open>ENODATA\<close>.\<close>

theorem read_protocol_witness:
  "\<not> src_inactive polled_source \<and> clock_is_active quiet_env
   \<and> write_counter (shm polled_source) < 2147483633
   \<and> write_counter_reread quiet_env < 2147483648
   \<and> ret (clockfeed_compare_to_sys fresh_sub (calloc_source\<lparr>clock := 7\<rparr>) quiet_env
            False False False) = EAGAIN
   \<and> ret (clockfeed_compare_to_sys fresh_sub polled_source quiet_env False False False)
       \<noteq> ENODATA
   \<and> diff (clockfeed_compare_to_sys fresh_sub polled_source quiet_env False False False)
       = \<lparr>tv_sec = 0, tv_nsec = 3500\<rparr>
   \<and> ret (clockfeed_compare_to_sys fresh_sub polled_source
            (quiet_env\<lparr>write_counter_reread := 17\<rparr>) False False False) = ENODATA"
  using read_protocol [of "calloc_source\<lparr>clock := 7\<rparr>" quiet_env fresh_sub False False False]
    read_protocol [of polled_source quiet_env fresh_sub False False False]
    read_protocol [of polled_source "quiet_env\<lparr>write_counter_reread := 17\<rparr>" fresh_sub
      False False False]
  by (simp add: example_defs Let_def sfptpd_time_subtract_def sfptpd_time_normalise_def)

subsection \<open>A sample that records a failed comparison (claim C5)\<close>

text \<open>Claim C5: when the read reaches the newest sample (the source is not inactive,
  its clock is active and the \<open>int\<close> copy of the write counter is not 0) and that
  sample carries a nonzero result code, \<open>clockfeed_compare_to_sys\<close> returns 0 with a
  zero difference, and so does \<open>sfptpd_clockfeed_compare\<close> of that subscription with
  the system clock: the caller sees a zero offset, not an error.\<close>

theorem compare_sample_rc_nonzero:
  assumes "\<not> src_inactive src" and "clock_is_active env"
    and "(ucast (write_counter (shm src)) :: 32 word) \<noteq> 0"
    and "rc (samples (shm src)
               (unat (((ucast (write_counter (shm src)) :: 32 word) - 1) AND index_mask))) \<noteq> 0"
  shows "ret (clockfeed_compare_to_sys sub src env w1 w2 w3) = 0
       \<and> diff (clockfeed_compare_to_sys sub src env w1 w2 w3) = timespec_zero
       \<and> (\<exists>r. sfptpd_clockfeed_compare (Some (sub, src, env)) None w1 w2 w3 = Some r
              \<and> cmp_ret r = 0 \<and> cmp_diff r = timespec_zero)"
  using assms by (simp add: cts_simps sfptpd_clockfeed_compare_def compare_max_age_diff_def)

theorem compare_sample_rc_nonzero_witness:
  "\<not> src_inactive failed_sample_source \<and> clock_is_active quiet_env
   \<and> (ucast (write_counter (shm failed_sample_source)) :: 32 word) \<noteq> 0
   \<and> rc (samples (shm failed_sample_source)
           (unat (((ucast (write_counter (shm failed_sample_source)) :: 32 word) - 1)
                  AND index_mask))) = 5
   \<and> ret (clockfeed_compare_to_sys fresh_sub failed_sample_source quiet_env
            False False False) = 0
   \<and> diff (clockfeed_compare_to_sys fresh_sub failed_sample_source quiet_env
            False False False) = timespec_zero
   \<and> (\<exists>r. sfptpd_clockfeed_compare (Some (fresh_sub, failed_sample_source, quiet_env)) None
              False False False = Some r \<and> cmp_ret r = 0 \<and> cmp_diff r = timespec_zero)"
  using compare_sample_rc_nonzero [of failed_sample_source quiet_env fresh_sub False False False]
  by (simp add: failed_sample_source_def quiet_env_def calloc_source_def ok_sample_def)

subsection \<open>The event-subscriber table (claim C7)\<close>

lemma subscribe_events_loop_None:
  "subscribe_events_loop es t i = None \<longleftrightarrow>
     (\<forall>j. i \<le> j \<and> j < MAX_EVENT_SUBSCRIBERS \<longrightarrow> es ! j \<noteq> NULL)"
proof (induction es t i rule: subscribe_events_loop.induct)
  case (1 es thread i)
  show ?case
  proof (cases "i < MAX_EVENT_SUBSCRIBERS")
    case False
    then show ?thesis by (simp add: subscribe_events_loop.simps[of es thread i])
  next
    case True
    show ?thesis
    proof (cases "es ! i = NULL")
      case True
      with \<open>i < MAX_EVENT_SUBSCRIBERS\<close> show ?thesis
        by (auto simp add: subscribe_events_loop.simps[of es thread i])
    next
      case False
      have "subscribe_events_loop es thread i = subscribe_events_loop es thread (Suc i)"
        using True False by (simp add: subscribe_events_loop.simps[of es thread i])
      also have "\<dots> = None \<longleftrightarrow>
          (\<forall>j. Suc i \<le> j \<and> j < MAX_EVENT_SUBSCRIBERS \<longrightarrow> es ! j \<noteq> NULL)"
        using 1 True False by simp
      also have "\<dots> \<longleftrightarrow> (\<forall>j. i \<le> j \<and> j < MAX_EVENT_SUBSCRIBERS \<longrightarrow> es ! j \<noteq> NULL)"
        using False by (metis Suc_leD Suc_leI le_neq_implies_less)
      finally show ?thesis .
    qed
  qed
qed

lemma subscribe_events_loop_full:
  assumes "length es = MAX_EVENT_SUBSCRIBERS" and "NULL \<notin> set es"
  shows "subscribe_events_loop es thread 0 = None"
  using assms by (metis subscribe_events_loop_None nth_mem)

text \<open>Claim C7 as stated says that a subscription to events that finds the table full
  returns an error to its caller. With the four slots taken, the handler sends no reply
  at all to the thread that asked, and calls \<open>sfptpd_thread_exit(ENOSPC)\<close> on its own
  thread, the clock feed.\<close>

theorem subscribe_events_full_counterexample:
  "length (event_subscribers full_feed) = MAX_EVENT_SUBSCRIBERS
   \<and> NULL \<notin> set (event_subscribers full_feed)
   \<and> map_option (replied \<circ> fst) (clockfeed_on_subscribe_events full_feed 5) = Some False
   \<and> map_option (thread_exit \<circ> fst) (clockfeed_on_subscribe_events full_feed 5)
       = Some (Some ENOSPC)"
proof -
  have "subscribe_events_loop [1, 2, 3, 4] 5 0 = None"
    by (rule subscribe_events_loop_full) (simp_all add: MAX_EVENT_SUBSCRIBERS_def NULL_def)
  thus ?thesis
    by (simp add: clockfeed_on_subscribe_events_def full_feed_def empty_feed_def
        MAX_EVENT_SUBSCRIBERS_def NULL_def)
qed

text \<open>Claim C7, amended: when a request to subscribe to events arrives and all
  \<open>MAX_EVENT_SUBSCRIBERS = 4\<close> slots are taken, the handler leaves the whole state of
  the feed, the subscriber table included, unchanged, sends no reply, and asks for the
  exit of the thread it runs on (the clock feed's) with \<open>ENOSPC\<close>.\<close>

theorem subscribe_events_full:
  assumes "thread \<noteq> NULL"
    and "length (event_subscribers feed) = MAX_EVENT_SUBSCRIBERS"
    and "NULL \<notin> set (event_subscribers feed)"
  shows "clockfeed_on_subscribe_events feed thread =
           Some (\<lparr>replied = False, resp_sub = None, thread_exit = Some ENOSPC\<rparr>, feed)"
proof -
  have "subscribe_events_loop (event_subscribers feed) thread 0 = None"
    using assms(2,3) by (rule subscribe_events_loop_full)
  thus ?thesis using assms(1) by (simp add: clockfeed_on_subscribe_events_def)
qed

theorem subscribe_events_full_witness:
  "(5::nat) \<noteq> NULL
   \<and> length (event_subscribers full_feed) = MAX_EVENT_SUBSCRIBERS
   \<and> NULL \<notin> set (event_subscribers full_feed)
   \<and> clockfeed_on_subscribe_events full_feed 5 =
       Some (\<lparr>replied = False, resp_sub = None, thread_exit = Some ENOSPC\<rparr>, full_feed)"
  using subscribe_events_full [of 5 full_feed]
  by (simp add: full_feed_def empty_feed_def MAX_EVENT_SUBSCRIBERS_def NULL_def)

subsection \<open>Adding and removing a clock (claim C9)\<close>

text \<open>Claim C9: for a clock \<open>clk\<close>, handling \<open>add_clock(clk)\<close> and then
  \<open>remove_clock(clk)\<close> leaves the feed exactly as it was before: both lists, the
  event-subscriber table and the heap (the address \<open>new\<close> that \<open>calloc\<close> gave the
  source is free again). Both handlers reply.\<close>

theorem add_then_remove_clock:
  assumes "clk \<noteq> NULL" and "new \<noteq> NULL" and "sources feed new = None"
  shows "Option.bind (clockfeed_on_add_clock feed clk log2 new)
           (\<lambda>(out, feed1). clockfeed_on_remove_clock feed1 clk) = Some (MSG_REPLY, feed)
       \<and> map_option fst (clockfeed_on_add_clock feed clk log2 new) = Some MSG_REPLY"
proof -
  have "(sources feed)(new := None) = sources feed" using assms(3) by (rule fun_upd_idem)
  thus ?thesis using assms
    by (simp add: clockfeed_on_add_clock_def clockfeed_on_remove_clock_def
        clockfeed_reap_zombies_def calloc_source_def Let_def)
qed

theorem add_then_remove_clock_witness:
  "(7::nat) \<noteq> NULL \<and> (1::nat) \<noteq> NULL \<and> sources full_feed 1 = None
   \<and> Option.bind (clockfeed_on_add_clock full_feed 7 0 1)
        (\<lambda>(out, feed1). clockfeed_on_remove_clock feed1 7) = Some (MSG_REPLY, full_feed)"
  using add_then_remove_clock [of 7 1 full_feed 0]
  by (simp add: full_feed_def empty_feed_def NULL_def)

subsection \<open>Reclaiming sources (claim C4)\<close>

lemma unlink_remove1:
  "p \<in> set xs \<Longrightarrow> set xs \<subseteq> dom h \<Longrightarrow> unlink h p xs = Some (remove1 p xs)"
  by (induction xs) auto

lemma unlink_Some_remove1:
  "unlink h p xs = Some ys \<Longrightarrow> p \<in> set xs \<and> ys = remove1 p xs"
  by (induction xs arbitrary: ys) (auto split: if_splits option.splits)

lemma find_source_Some:
  "find_source h c xs = Some p \<Longrightarrow> p \<noteq> NULL \<Longrightarrow> p \<in> set xs \<and> (\<exists>s. h p = Some s \<and> clock s = c)"
  by (induction xs) (auto split: option.splits if_splits)

lemma reap_frees_only:
  assumes "clockfeed_reap_zombies feed p = Some feed'"
    and "sources feed q = Some s" and "sources feed' q = None"
  shows "q = p \<and> src_inactive s \<and> subscribers s = []"
  using assms
  by (auto simp add: clockfeed_reap_zombies_def split: option.splits if_splits)

lemma reap_subs_commute:
  "clockfeed_reap_zombies (feed\<lparr>subs := X\<rparr>) p =
     map_option (\<lambda>f. f\<lparr>subs := X\<rparr>) (clockfeed_reap_zombies feed p)"
  by (simp add: clockfeed_reap_zombies_def split: option.splits)

lemma reap_inv:
  assumes inv: "feed_inv_except {p} feed" and live: "sources feed p = Some s"
  shows "\<exists>feed'. clockfeed_reap_zombies feed p = Some feed' \<and> feed_inv feed'
           \<and> (src_inactive s \<and> subscribers s = [] \<longrightarrow> sources feed' p = None \<and> p \<notin> set (inactive feed'))
           \<and> subs feed' = subs feed"
proof (cases "src_inactive s \<and> subscribers s = []")
  case False
  have "clockfeed_reap_zombies feed p = Some feed"
  proof (cases "src_inactive s")
    case True
    with False have "subscribers s \<noteq> []" by simp
    thus ?thesis using live by (simp add: clockfeed_reap_zombies_def)
  next
    case False
    thus ?thesis using live by (simp add: clockfeed_reap_zombies_def)
  qed
  moreover have "feed_inv feed"
    unfolding feed_inv_def feed_inv_except_def
  proof (intro conjI allI impI)
    fix p' s' assume a: "sources feed p' = Some s'" "src_inactive s' \<and> p' \<notin> {}"
    show "subscribers s' \<noteq> []"
    proof (cases "p' = p")
      case True
      with a live have "s' = s" by simp
      thus ?thesis using a False by auto
    next
      case False
      thus ?thesis using inv a unfolding feed_inv_except_def by blast
    qed
  qed (use inv in \<open>(unfold feed_inv_except_def, blast)+\<close>)
  ultimately show ?thesis using False by blast
next
  case True
  have pin: "p \<in> set (inactive feed)"
    using inv live True unfolding feed_inv_except_def by blast
  have sub: "set (inactive feed) \<subseteq> dom (sources feed)"
    using inv unfolding feed_inv_except_def by auto
  have u: "unlink (sources feed) p (inactive feed) = Some (remove1 p (inactive feed))"
    by (rule unlink_remove1[OF pin sub])
  let ?f = "feed\<lparr>inactive := remove1 p (inactive feed), sources := (sources feed)(p := None)\<rparr>"
  have r: "clockfeed_reap_zombies feed p = Some ?f"
    using live True u by (simp add: clockfeed_reap_zombies_def)
  have d: "distinct (active feed @ inactive feed)"
    using inv unfolding feed_inv_except_def by simp
  have dm: "set (active feed @ inactive feed) = dom (sources feed)"
    using inv unfolding feed_inv_except_def by simp
  have pa: "p \<notin> set (active feed)" using d pin by auto
  have i1: "distinct (active ?f @ inactive ?f)" using d by auto
  have i2: "set (active ?f @ inactive ?f) = dom (sources ?f)"
    using d dm pa by auto
  have i3: "\<forall>p' s'. sources ?f p' = Some s' \<longrightarrow>
        (src_inactive s' \<longleftrightarrow> p' \<in> set (inactive ?f)) \<and>
        distinct (subscribers s') \<and>
        (\<forall>q \<in> set (subscribers s'). \<exists>sb. subs ?f q = Some sb \<and> source sb = p') \<and>
        (src_inactive s' \<and> p' \<notin> {} \<longrightarrow> subscribers s' \<noteq> [])"
  proof (intro allI impI)
    fix p' s' assume a: "sources ?f p' = Some s'"
    hence ne: "p' \<noteq> p" and l: "sources feed p' = Some s'" by (auto split: if_splits)
    have "(src_inactive s' \<longleftrightarrow> p' \<in> set (inactive feed)) \<and>
        distinct (subscribers s') \<and>
        (\<forall>q \<in> set (subscribers s'). \<exists>sb. subs feed q = Some sb \<and> source sb = p') \<and>
        (src_inactive s' \<and> p' \<notin> {p} \<longrightarrow> subscribers s' \<noteq> [])"
      using inv l unfolding feed_inv_except_def by blast
    thus "(src_inactive s' \<longleftrightarrow> p' \<in> set (inactive ?f)) \<and>
        distinct (subscribers s') \<and>
        (\<forall>q \<in> set (subscribers s'). \<exists>sb. subs ?f q = Some sb \<and> source sb = p') \<and>
        (src_inactive s' \<and> p' \<notin> {} \<longrightarrow> subscribers s' \<noteq> [])"
      using ne by simp
  qed
  have i4: "\<forall>q sb. subs ?f q = Some sb \<longrightarrow>
        (\<exists>s. sources ?f (source sb) = Some s \<and> q \<in> set (subscribers s))"
  proof (intro allI impI)
    fix q sb assume "subs ?f q = Some sb"
    hence "subs feed q = Some sb" by simp
    then obtain s' where s': "sources feed (source sb) = Some s'" "q \<in> set (subscribers s')"
      using inv unfolding feed_inv_except_def by blast
    hence "source sb \<noteq> p" using live True by auto
    thus "\<exists>s. sources ?f (source sb) = Some s \<and> q \<in> set (subscribers s)"
      using s' by simp
  qed
  have "feed_inv ?f"
    unfolding feed_inv_def feed_inv_except_def using i1 i2 i3 i4 by blast
  moreover have "p \<notin> set (inactive ?f)" using d by auto
  ultimately show ?thesis using r by simp
qed


lemma inv_distinct: "feed_inv_except zs feed \<Longrightarrow> distinct (active feed @ inactive feed)"
  by (simp add: feed_inv_except_def)

lemma inv_dom: "feed_inv_except zs feed \<Longrightarrow> set (active feed) \<union> set (inactive feed) = dom (sources feed)"
  by (simp add: feed_inv_except_def)

lemma inv_src:
  assumes "feed_inv_except zs feed" and "sources feed p = Some s"
  shows "src_inactive s \<longleftrightarrow> p \<in> set (inactive feed)"
    and "distinct (subscribers s)"
    and "\<And>q. q \<in> set (subscribers s) \<Longrightarrow> \<exists>sb. subs feed q = Some sb \<and> source sb = p"
    and "src_inactive s \<Longrightarrow> p \<notin> zs \<Longrightarrow> subscribers s \<noteq> []"
  using assms unfolding feed_inv_except_def by blast+

lemma inv_sub:
  assumes "feed_inv_except zs feed" and "subs feed q = Some sb"
  shows "\<exists>s. sources feed (source sb) = Some s \<and> q \<in> set (subscribers s)"
  using assms unfolding feed_inv_except_def by blast

lemma feed_inv_exceptI:
  assumes "distinct (active feed @ inactive feed)"
    and "set (active feed) \<union> set (inactive feed) = dom (sources feed)"
    and "\<And>p s. sources feed p = Some s \<Longrightarrow> (src_inactive s \<longleftrightarrow> p \<in> set (inactive feed))"
    and "\<And>p s. sources feed p = Some s \<Longrightarrow> distinct (subscribers s)"
    and "\<And>p s q. sources feed p = Some s \<Longrightarrow> q \<in> set (subscribers s)
            \<Longrightarrow> \<exists>sb. subs feed q = Some sb \<and> source sb = p"
    and "\<And>p s. sources feed p = Some s \<Longrightarrow> src_inactive s \<Longrightarrow> p \<notin> zs \<Longrightarrow> subscribers s \<noteq> []"
    and "\<And>q sb. subs feed q = Some sb
            \<Longrightarrow> \<exists>s. sources feed (source sb) = Some s \<and> q \<in> set (subscribers s)"
  shows "feed_inv_except zs feed"
proof -
  have a: "set (active feed @ inactive feed) = dom (sources feed)" using assms(2) by simp
  have b: "\<forall>p s. sources feed p = Some s \<longrightarrow>
        (src_inactive s \<longleftrightarrow> p \<in> set (inactive feed)) \<and>
        distinct (subscribers s) \<and>
        (\<forall>q \<in> set (subscribers s). \<exists>sb. subs feed q = Some sb \<and> source sb = p) \<and>
        (src_inactive s \<and> p \<notin> zs \<longrightarrow> subscribers s \<noteq> [])"
    using assms(3,4,5,6) by blast
  have c: "\<forall>q sb. subs feed q = Some sb \<longrightarrow>
        (\<exists>s. sources feed (source sb) = Some s \<and> q \<in> set (subscribers s))"
    using assms(7) by blast
  show ?thesis unfolding feed_inv_except_def using assms(1) a b c by (intro conjI)
qed

lemma add_clock_inv:
  assumes inv: "feed_inv feed" and fresh: "sources feed new = None"
    and run: "clockfeed_on_add_clock feed clk log2 new = Some (out, feed')"
  shows "feed_inv feed'"
proof -
  let ?s = "calloc_source\<lparr>clock := clk, src_poll_period_log2 :=
              (if log2 < poll_period_log2 feed then poll_period_log2 feed else log2)\<rparr>"
  have f': "feed' = feed\<lparr>active := new # active feed, sources := (sources feed)(new \<mapsto> ?s)\<rparr>"
    using run by (simp add: clockfeed_on_add_clock_def Let_def split: if_splits)
  have i: "feed_inv_except {} feed" using inv by (simp add: feed_inv_def)
  have nn: "new \<notin> set (active feed) \<union> set (inactive feed)"
    using fresh inv_dom[OF i] by auto
  have "feed_inv_except {} feed'"
  proof (rule feed_inv_exceptI)
    show "distinct (active feed' @ inactive feed')"
      using inv_distinct[OF i] nn by (simp add: f')
    show "set (active feed') \<union> set (inactive feed') = dom (sources feed')"
      using inv_dom[OF i] by (auto simp add: f')
  next
    fix p s assume a: "sources feed' p = Some s"
    show "src_inactive s \<longleftrightarrow> p \<in> set (inactive feed')"
      using a nn inv_src(1)[OF i] by (auto simp add: f' calloc_source_def split: if_splits)
    show "distinct (subscribers s)"
      using a inv_src(2)[OF i] by (auto simp add: f' calloc_source_def split: if_splits)
    show "src_inactive s \<Longrightarrow> p \<notin> {} \<Longrightarrow> subscribers s \<noteq> []"
      using a inv_src(4)[OF i] by (auto simp add: f' calloc_source_def split: if_splits)
    fix q assume "q \<in> set (subscribers s)"
    thus "\<exists>sb. subs feed' q = Some sb \<and> source sb = p"
      using a inv_src(3)[OF i] by (auto simp add: f' calloc_source_def split: if_splits)
  next
    fix q sb assume "subs feed' q = Some sb"
    hence "subs feed q = Some sb" by (simp add: f')
    from inv_sub[OF i this] obtain s where s: "sources feed (source sb) = Some s" "q \<in> set (subscribers s)"
      by blast
    hence "source sb \<noteq> new" using fresh by auto
    thus "\<exists>s. sources feed' (source sb) = Some s \<and> q \<in> set (subscribers s)"
      using s by (simp add: f')
  qed
  thus ?thesis by (simp add: feed_inv_def)
qed


lemma remove_clock_inv:
  assumes inv: "feed_inv feed"
    and run: "clockfeed_on_remove_clock feed clk = Some (out, feed')"
  shows "feed_inv feed'"
proof -
  have i: "feed_inv_except {} feed" using inv by (simp add: feed_inv_def)
  from run obtain p where fs: "find_source (sources feed) clk (active feed) = Some p"
    by (auto simp add: clockfeed_on_remove_clock_def split: if_splits option.splits)
  show ?thesis
  proof (cases "p = NULL")
    case True
    hence "feed' = feed" using run fs
      by (auto simp add: clockfeed_on_remove_clock_def split: if_splits)
    thus ?thesis using inv by simp
  next
    case False
    from find_source_Some[OF fs False] obtain s where pa: "p \<in> set (active feed)"
      and live: "sources feed p = Some s" by blast
    let ?m = "feed\<lparr>active := remove1 p (active feed), inactive := p # inactive feed,
                   sources := (sources feed)(p \<mapsto> s\<lparr>src_inactive := True\<rparr>)\<rparr>"
    have r: "clockfeed_reap_zombies ?m p = Some feed'"
      using run fs False live
      by (auto simp add: clockfeed_on_remove_clock_def split: if_splits)
    have d: "distinct (active feed @ inactive feed)" by (rule inv_distinct[OF i])
    have dm: "set (active feed) \<union> set (inactive feed) = dom (sources feed)" by (rule inv_dom[OF i])
    have pi: "p \<notin> set (inactive feed)" using d pa by auto
    have "feed_inv_except {p} ?m"
    proof (rule feed_inv_exceptI)
      show "distinct (active ?m @ inactive ?m)" using d pa by auto
      show "set (active ?m) \<union> set (inactive ?m) = dom (sources ?m)"
        using d dm pa live by auto
    next
      fix p' s' assume a: "sources ?m p' = Some s'"
      show "src_inactive s' \<longleftrightarrow> p' \<in> set (inactive ?m)"
        using a inv_src(1)[OF i] by (auto split: if_splits)
      show "distinct (subscribers s')"
        using a inv_src(2)[OF i] live by (auto split: if_splits)
      show "src_inactive s' \<Longrightarrow> p' \<notin> {p} \<Longrightarrow> subscribers s' \<noteq> []"
        using a inv_src(4)[OF i] by (auto split: if_splits)
      fix q assume "q \<in> set (subscribers s')"
      thus "\<exists>sb. subs ?m q = Some sb \<and> source sb = p'"
        using a inv_src(3)[OF i] live by (auto split: if_splits)
    next
      fix q sb assume "subs ?m q = Some sb"
      hence "subs feed q = Some sb" by simp
      from inv_sub[OF i this] obtain s' where "sources feed (source sb) = Some s'" "q \<in> set (subscribers s')"
        by blast
      thus "\<exists>s. sources ?m (source sb) = Some s \<and> q \<in> set (subscribers s)"
        using live by auto
    qed
    moreover have "sources ?m p = Some (s\<lparr>src_inactive := True\<rparr>)" by simp
    ultimately obtain f where "clockfeed_reap_zombies ?m p = Some f" "feed_inv f"
      using reap_inv by blast
    thus ?thesis using r by simp
  qed
qed

lemma subscribe_inv:
  assumes inv: "feed_inv feed" and fresh: "subs feed new = None"
    and run: "clockfeed_on_subscribe feed clk new = Some (out, feed')"
  shows "feed_inv feed'"
proof -
  have i: "feed_inv_except {} feed" using inv by (simp add: feed_inv_def)
  show ?thesis
  proof (cases "feed' = feed")
    case True
    thus ?thesis using inv by simp
  next
    case False
    from run False obtain p s where live: "sources feed p = Some s"
      and f': "feed' = feed\<lparr>subs := (subs feed)(new \<mapsto> calloc_sub\<lparr>source := p, read_counter := - 1,
                                                          min_counter := - 1\<rparr>),
                             sources := (sources feed)(p \<mapsto> s\<lparr>subscribers := new # subscribers s\<rparr>)\<rparr>"
      by (auto simp add: clockfeed_on_subscribe_def split: if_splits option.splits)
    have nn: "new \<notin> set (subscribers s')" if "sources feed p' = Some s'" for p' s'
      using inv_src(3)[OF i that] fresh by fastforce
    have "feed_inv_except {} feed'"
    proof (rule feed_inv_exceptI)
      show "distinct (active feed' @ inactive feed')" using inv_distinct[OF i] by (simp add: f')
      show "set (active feed') \<union> set (inactive feed') = dom (sources feed')"
        using inv_dom[OF i] live by (auto simp add: f')
    next
      fix p' s' assume a: "sources feed' p' = Some s'"
      show "src_inactive s' \<longleftrightarrow> p' \<in> set (inactive feed')"
        using a inv_src(1)[OF i] live by (auto simp add: f' split: if_splits)
      show "distinct (subscribers s')"
        using a inv_src(2)[OF i] live nn[OF live] by (auto simp add: f' split: if_splits)
      show "src_inactive s' \<Longrightarrow> p' \<notin> {} \<Longrightarrow> subscribers s' \<noteq> []"
        using a inv_src(4)[OF i] by (auto simp add: f' split: if_splits)
      fix q assume "q \<in> set (subscribers s')"
      thus "\<exists>sb. subs feed' q = Some sb \<and> source sb = p'"
        using a inv_src(3)[OF i] live nn by (auto simp add: f' split: if_splits)
    next
      fix q sb assume a: "subs feed' q = Some sb"
      show "\<exists>s. sources feed' (source sb) = Some s \<and> q \<in> set (subscribers s)"
      proof (cases "q = new")
        case True
        thus ?thesis using a by (auto simp add: f')
      next
        case False
        hence "subs feed q = Some sb" using a by (simp add: f')
        from inv_sub[OF i this] obtain s' where "sources feed (source sb) = Some s'" "q \<in> set (subscribers s')"
          by blast
        thus ?thesis using live by (auto simp add: f')
      qed
    qed
    thus ?thesis by (simp add: feed_inv_def)
  qed
qed


lemma reap_subs:
  "clockfeed_reap_zombies feed p = Some f \<Longrightarrow> subs f = subs feed"
  by (auto simp add: clockfeed_reap_zombies_def split: option.splits if_splits)

lemma unsubscribe_inv:
  assumes inv: "feed_inv feed" and nn: "sub \<noteq> NULL" and live_sub: "subs feed sub = Some sb"
  shows "\<exists>feed'. clockfeed_on_unsubscribe feed sub = Some (MSG_REPLY, feed') \<and> feed_inv feed'
           \<and> subs feed' sub = None
           \<and> (\<forall>s. sources feed (source sb) = Some s \<and> src_inactive s \<and> subscribers s = [sub]
                 \<longrightarrow> sources feed' (source sb) = None \<and> source sb \<notin> set (inactive feed'))"
proof -
  have i: "feed_inv_except {} feed" using inv by (simp add: feed_inv_def)
  let ?p = "source sb"
  from inv_sub[OF i live_sub] obtain s where live: "sources feed ?p = Some s"
    and mem: "sub \<in> set (subscribers s)" by blast
  have "set (subscribers s) \<subseteq> dom (subs feed)"
    using inv_src(3)[OF i live] by auto
  hence u: "unlink (subs feed) sub (subscribers s) = Some (remove1 sub (subscribers s))"
    using mem by (simp add: unlink_remove1)
  let ?rest = "remove1 sub (subscribers s)"
  let ?s = "s\<lparr>subscribers := ?rest\<rparr>"
  let ?m1 = "feed\<lparr>sources := (sources feed)(?p \<mapsto> ?s)\<rparr>"
  let ?X = "(subs feed)(sub := None)"
  let ?m2 = "?m1\<lparr>subs := ?X\<rparr>"
  have ds: "distinct (subscribers s)" by (rule inv_src(2)[OF i live])
  have "feed_inv_except {?p} ?m2"
  proof (rule feed_inv_exceptI)
    show "distinct (active ?m2 @ inactive ?m2)" using inv_distinct[OF i] by simp
    show "set (active ?m2) \<union> set (inactive ?m2) = dom (sources ?m2)"
      using inv_dom[OF i] live by auto
  next
    fix p' s' assume a: "sources ?m2 p' = Some s'"
    show "src_inactive s' \<longleftrightarrow> p' \<in> set (inactive ?m2)"
      using a inv_src(1)[OF i] live by (auto split: if_splits)
    show "distinct (subscribers s')"
      using a inv_src(2)[OF i] live by (auto split: if_splits)
    show "src_inactive s' \<Longrightarrow> p' \<notin> {?p} \<Longrightarrow> subscribers s' \<noteq> []"
      using a inv_src(4)[OF i] by (auto split: if_splits)
    fix q assume q: "q \<in> set (subscribers s')"
    show "\<exists>sb. subs ?m2 q = Some sb \<and> source sb = p'"
    proof (cases "p' = ?p")
      case True
      hence "s' = ?s" using a by simp
      hence "q \<in> set (subscribers s)" "q \<noteq> sub" using q ds by auto
      thus ?thesis using inv_src(3)[OF i live] True by auto
    next
      case False
      hence l: "sources feed p' = Some s'" using a by simp
      from inv_src(3)[OF i l q] obtain sb' where sb': "subs feed q = Some sb'" "source sb' = p'"
        by blast
      hence "q \<noteq> sub" using False live_sub by auto
      thus ?thesis using sb' by simp
    qed
  next
    fix q sb' assume a: "subs ?m2 q = Some sb'"
    hence ne: "q \<noteq> sub" and l: "subs feed q = Some sb'" by (auto split: if_splits)
    from inv_sub[OF i l] obtain s' where s': "sources feed (source sb') = Some s'"
      "q \<in> set (subscribers s')" by blast
    show "\<exists>s. sources ?m2 (source sb') = Some s \<and> q \<in> set (subscribers s)"
    proof (cases "source sb' = ?p")
      case True
      hence "s' = s" using s' live by simp
      thus ?thesis using True s' ne by auto
    next
      case False
      thus ?thesis using s' by simp
    qed
  qed
  moreover have l2: "sources ?m2 ?p = Some ?s" by simp
  ultimately obtain f2 where f2: "clockfeed_reap_zombies ?m2 ?p = Some f2" "feed_inv f2"
    "src_inactive ?s \<and> subscribers ?s = [] \<longrightarrow> sources f2 ?p = None \<and> ?p \<notin> set (inactive f2)"
    "subs f2 = subs ?m2"
    using reap_inv[of ?p ?m2 ?s] by blast
  from f2(1) obtain f1 where f1: "clockfeed_reap_zombies ?m1 ?p = Some f1" "f2 = f1\<lparr>subs := ?X\<rparr>"
    by (auto simp add: reap_subs_commute)
  have "subs f1 = subs feed" using reap_subs[OF f1(1)] by simp
  hence run: "clockfeed_on_unsubscribe feed sub = Some (MSG_REPLY, f2)"
    using nn live_sub live u f1 by (simp add: clockfeed_on_unsubscribe_def)
  have "subs f2 sub = None" using f2(4) by simp
  moreover have "sources f2 ?p = None \<and> ?p \<notin> set (inactive f2)"
    if "sources feed ?p = Some t \<and> src_inactive t \<and> subscribers t = [sub]" for t
  proof -
    from that live have "t = s" by simp
    hence "src_inactive ?s \<and> subscribers ?s = []" using that by simp
    thus ?thesis using f2(3) by blast
  qed
  ultimately show ?thesis using run f2(2) by blast
qed

lemma events_inv:
  "feed_inv feed \<Longrightarrow> feed_inv (feed\<lparr>event_subscribers := es\<rparr>)"
  by (simp add: feed_inv_def feed_inv_except_def)

lemma run_inv:
  "feed_inv feed \<Longrightarrow> feed_inv (clockfeed_on_run feed)"
  by (simp add: feed_inv_def feed_inv_except_def clockfeed_on_run_def)

lemma on_message_inv:
  assumes inv: "feed_inv feed"
    and fresh: "sources feed new = None" "subs feed new = None"
    and run: "clockfeed_on_message feed msg new = Some (out, feed')"
  shows "feed_inv feed'"
proof (cases msg)
  case APP_MSG_RUN
  thus ?thesis using inv run by (auto simp add: run_inv)
next
  case (CLOCKFEED_MSG_ADD_CLOCK clk log2)
  thus ?thesis using inv fresh run by (auto intro: add_clock_inv)
next
  case (CLOCKFEED_MSG_REMOVE_CLOCK clk)
  thus ?thesis using inv run by (auto intro: remove_clock_inv)
next
  case (CLOCKFEED_MSG_SUBSCRIBE clk)
  thus ?thesis using inv fresh run by (auto intro: subscribe_inv)
next
  case (CLOCKFEED_MSG_UNSUBSCRIBE sub)
  hence r: "clockfeed_on_unsubscribe feed sub = Some (out, feed')" using run by simp
  then obtain sb where "sub \<noteq> NULL" "subs feed sub = Some sb"
    by (auto simp add: clockfeed_on_unsubscribe_def split: if_splits option.splits)
  from unsubscribe_inv[OF inv this] r show ?thesis by auto
next
  case (CLOCKFEED_MSG_SUBSCRIBE_EVENTS thread)
  thus ?thesis using inv run
    by (auto simp add: clockfeed_on_subscribe_events_def events_inv split: if_splits option.splits)
next
  case (CLOCKFEED_MSG_UNSUBSCRIBE_EVENTS thread)
  thus ?thesis using inv run
    by (auto simp add: clockfeed_on_unsubscribe_events_def events_inv split: if_splits)
next
  case MSG_OTHER
  thus ?thesis using inv run by auto
qed


lemma remove1_Nil_singleton:
  "x \<in> set xs \<Longrightarrow> remove1 x xs = [] \<Longrightarrow> xs = [x]"
  by (cases xs) (auto split: if_splits)

lemma remove_clock_frees:
  assumes run: "clockfeed_on_remove_clock feed clk = Some (out, feed')"
    and q: "sources feed q = Some s" "sources feed' q = None"
  shows "subscribers s = [] \<and> clock s = clk"
proof -
  from run obtain p where fs: "find_source (sources feed) clk (active feed) = Some p"
    by (auto simp add: clockfeed_on_remove_clock_def split: if_splits option.splits)
  have ne: "p \<noteq> NULL"
  proof
    assume "p = NULL"
    hence "feed' = feed" using run fs
      by (auto simp add: clockfeed_on_remove_clock_def split: if_splits)
    thus False using q by simp
  qed
  from find_source_Some[OF fs ne] obtain t where live: "sources feed p = Some t" "clock t = clk"
    by blast
  let ?m = "feed\<lparr>active := remove1 p (active feed), inactive := p # inactive feed,
                 sources := (sources feed)(p \<mapsto> t\<lparr>src_inactive := True\<rparr>)\<rparr>"
  have r: "clockfeed_reap_zombies ?m p = Some feed'"
    using run fs ne live
    by (auto simp add: clockfeed_on_remove_clock_def split: if_splits)
  obtain s' where s': "sources ?m q = Some s'" "subscribers s' = subscribers s" "clock s' = clock s"
    using q(1) live by (cases "q = p") auto
  from reap_frees_only[OF r s'(1) q(2)] have "q = p" "subscribers s' = []" by auto
  thus ?thesis using s' q live by auto
qed

lemma unsubscribe_frees:
  assumes inv: "feed_inv feed"
    and run: "clockfeed_on_unsubscribe feed sub = Some (out, feed')"
    and q: "sources feed q = Some s" "sources feed' q = None"
  shows "src_inactive s \<and> subscribers s = [sub]"
proof -
  from run obtain sb t rest f1 where sb: "subs feed sub = Some sb"
    and live: "sources feed (source sb) = Some t"
    and u: "unlink (subs feed) sub (subscribers t) = Some rest"
    and r: "clockfeed_reap_zombies
              (feed\<lparr>sources := (sources feed)(source sb \<mapsto> t\<lparr>subscribers := rest\<rparr>)\<rparr>)
              (source sb) = Some f1"
    and f': "feed' = f1\<lparr>subs := (subs f1)(sub := None)\<rparr>"
    by (auto simp add: clockfeed_on_unsubscribe_def split: if_splits option.splits)
  let ?m = "feed\<lparr>sources := (sources feed)(source sb \<mapsto> t\<lparr>subscribers := rest\<rparr>)\<rparr>"
  from unlink_Some_remove1[OF u] have mem: "sub \<in> set (subscribers t)"
    and rest: "rest = remove1 sub (subscribers t)" by auto
  obtain s' where s': "sources ?m q = Some s'" "src_inactive s' = src_inactive s"
      "q \<noteq> source sb \<longrightarrow> subscribers s' = subscribers s"
    using q(1) live by (cases "q = source sb") auto
  have "sources f1 q = None" using q(2) f' by simp
  from reap_frees_only[OF r s'(1) this] have e: "q = source sb" "src_inactive s'" "subscribers s' = []"
    by auto
  hence "s = t" using q(1) live by simp
  moreover have "rest = []" using e s'(1) by auto
  ultimately show ?thesis using e s'(2) mem rest by (simp add: remove1_Nil_singleton)
qed

lemma other_messages_free_nothing:
  assumes run: "clockfeed_on_message feed msg new = Some (out, feed')"
    and q: "sources feed q = Some s" "sources feed' q = None"
    and fresh: "sources feed new = None"
  shows "(\<exists>clk. msg = CLOCKFEED_MSG_REMOVE_CLOCK clk) \<or> (\<exists>sub. msg = CLOCKFEED_MSG_UNSUBSCRIBE sub)"
proof (cases msg)
  case (CLOCKFEED_MSG_ADD_CLOCK clk log2)
  thus ?thesis using run q fresh
    by (auto simp add: clockfeed_on_add_clock_def Let_def split: if_splits)
next
  case (CLOCKFEED_MSG_SUBSCRIBE clk)
  thus ?thesis using run q
    by (auto simp add: clockfeed_on_subscribe_def split: if_splits option.splits)
next
  case (CLOCKFEED_MSG_SUBSCRIBE_EVENTS thread)
  thus ?thesis using run q
    by (auto simp add: clockfeed_on_subscribe_events_def split: if_splits option.splits)
next
  case (CLOCKFEED_MSG_UNSUBSCRIBE_EVENTS thread)
  thus ?thesis using run q
    by (auto simp add: clockfeed_on_unsubscribe_events_def split: if_splits)
qed (use run q in \<open>auto simp add: clockfeed_on_run_def\<close>)

lemma feed_inv_zombie_feed: "feed_inv zombie_feed"
  unfolding feed_inv_def
  by (rule feed_inv_exceptI)
     (auto simp add: zombie_feed_def empty_feed_def removed_source_def fresh_sub_def
        calloc_source_def calloc_sub_def split: if_splits)

lemma feed_inv_created: "feed_inv (sfptpd_clockfeed_create l)"
  by (simp add: feed_inv_def feed_inv_except_def sfptpd_clockfeed_create_def)

text \<open>Claim C4: in a state of the feed that satisfies the invariant (as the created
  feed does, and as every handled message keeps it), with \<open>new\<close> the free address the
  allocator would return:
  \<^item> a message frees a source only in two ways: \<open>remove_clock\<close> of its clock when it
    has no subscriber (the handler marks it inactive, then reaps it), or \<open>unsubscribe\<close>
    of its only subscriber when it is inactive; so a source is freed only when it is
    inactive and its subscriber list is empty;
  \<^item> after any message, every live subscription points to a live source: no source is
    freed while a subscription references it;
  \<^item> the \<open>unsubscribe\<close> of the last subscriber of an inactive source replies and
    leaves that source freed and off the inactive list.\<close>

theorem source_reclamation:
  assumes inv: "feed_inv feed" and fresh: "sources feed new = None" "subs feed new = None"
  shows "(\<forall>msg out feed'. clockfeed_on_message feed msg new = Some (out, feed') \<longrightarrow>
            feed_inv feed'
          \<and> (\<forall>q s. sources feed q = Some s \<and> sources feed' q = None \<longrightarrow>
                 (msg = CLOCKFEED_MSG_REMOVE_CLOCK (clock s) \<and> subscribers s = [])
               \<or> (src_inactive s \<and> (\<exists>sub. msg = CLOCKFEED_MSG_UNSUBSCRIBE sub \<and> subscribers s = [sub])))
          \<and> (\<forall>sub sb. subs feed' sub = Some sb \<longrightarrow> source sb \<in> dom (sources feed')))
       \<and> (\<forall>sub sb s. sub \<noteq> NULL \<and> subs feed sub = Some sb \<and> sources feed (source sb) = Some s
              \<and> src_inactive s \<and> subscribers s = [sub] \<longrightarrow>
            (\<exists>feed'. clockfeed_on_message feed (CLOCKFEED_MSG_UNSUBSCRIBE sub) new
                        = Some (MSG_REPLY, feed')
                    \<and> sources feed' (source sb) = None
                    \<and> source sb \<notin> set (inactive feed')
                    \<and> subs feed' sub = None))"
proof -
  have part1: "feed_inv feed'
          \<and> (\<forall>q s. sources feed q = Some s \<and> sources feed' q = None \<longrightarrow>
                 (msg = CLOCKFEED_MSG_REMOVE_CLOCK (clock s) \<and> subscribers s = [])
               \<or> (src_inactive s \<and> (\<exists>sub. msg = CLOCKFEED_MSG_UNSUBSCRIBE sub \<and> subscribers s = [sub])))
          \<and> (\<forall>sub sb. subs feed' sub = Some sb \<longrightarrow> source sb \<in> dom (sources feed'))"
    if run: "clockfeed_on_message feed msg new = Some (out, feed')" for msg out feed'
  proof (intro conjI)
    show i': "feed_inv feed'" by (rule on_message_inv[OF inv fresh run])
    show "\<forall>q s. sources feed q = Some s \<and> sources feed' q = None \<longrightarrow>
                 (msg = CLOCKFEED_MSG_REMOVE_CLOCK (clock s) \<and> subscribers s = [])
               \<or> (src_inactive s \<and> (\<exists>sub. msg = CLOCKFEED_MSG_UNSUBSCRIBE sub \<and> subscribers s = [sub]))"
    proof (intro allI impI)
      fix q s assume q: "sources feed q = Some s \<and> sources feed' q = None"
      from other_messages_free_nothing[OF run _ _ fresh(1)] q
      consider clk where "msg = CLOCKFEED_MSG_REMOVE_CLOCK clk"
        | sub where "msg = CLOCKFEED_MSG_UNSUBSCRIBE sub" by blast
      thus "(msg = CLOCKFEED_MSG_REMOVE_CLOCK (clock s) \<and> subscribers s = [])
          \<or> (src_inactive s \<and> (\<exists>sub. msg = CLOCKFEED_MSG_UNSUBSCRIBE sub \<and> subscribers s = [sub]))"
      proof cases
        case 1
        hence "clockfeed_on_remove_clock feed clk = Some (out, feed')" using run by simp
        from remove_clock_frees[OF this] q 1 show ?thesis by blast
      next
        case 2
        hence "clockfeed_on_unsubscribe feed sub = Some (out, feed')" using run by simp
        from unsubscribe_frees[OF inv this] q 2 show ?thesis by blast
      qed
    qed
    show "\<forall>sub sb. subs feed' sub = Some sb \<longrightarrow> source sb \<in> dom (sources feed')"
      using i' inv_sub[of "{}" feed'] unfolding feed_inv_def by blast
  qed
  have part2: "\<exists>feed'. clockfeed_on_message feed (CLOCKFEED_MSG_UNSUBSCRIBE sub) new = Some (MSG_REPLY, feed')
          \<and> sources feed' (source sb) = None \<and> source sb \<notin> set (inactive feed')
          \<and> subs feed' sub = None"
    if a: "sub \<noteq> NULL \<and> subs feed sub = Some sb \<and> sources feed (source sb) = Some s
              \<and> src_inactive s \<and> subscribers s = [sub]" for sub sb s
    using unsubscribe_inv[OF inv, of sub sb] a by auto
  show ?thesis
  proof (rule conjI)
    show "\<forall>msg out feed'. clockfeed_on_message feed msg new = Some (out, feed') \<longrightarrow>
            feed_inv feed'
          \<and> (\<forall>q s. sources feed q = Some s \<and> sources feed' q = None \<longrightarrow>
                 (msg = CLOCKFEED_MSG_REMOVE_CLOCK (clock s) \<and> subscribers s = [])
               \<or> (src_inactive s \<and> (\<exists>sub. msg = CLOCKFEED_MSG_UNSUBSCRIBE sub \<and> subscribers s = [sub])))
          \<and> (\<forall>sub sb. subs feed' sub = Some sb \<longrightarrow> source sb \<in> dom (sources feed'))"
      using part1 by (intro allI impI)
    show "\<forall>sub sb s. sub \<noteq> NULL \<and> subs feed sub = Some sb \<and> sources feed (source sb) = Some s
              \<and> src_inactive s \<and> subscribers s = [sub] \<longrightarrow>
            (\<exists>feed'. clockfeed_on_message feed (CLOCKFEED_MSG_UNSUBSCRIBE sub) new
                        = Some (MSG_REPLY, feed')
                    \<and> sources feed' (source sb) = None
                    \<and> source sb \<notin> set (inactive feed')
                    \<and> subs feed' sub = None)"
      using part2 by (intro allI impI)
  qed
qed

text \<open>The claim at a feed whose only source is inactive with one subscriber:
  unsubscribing it frees the source.\<close>

theorem source_reclamation_witness:
  "feed_inv zombie_feed \<and> sources zombie_feed 9 = None \<and> subs zombie_feed 9 = None
   \<and> (1::nat) \<noteq> NULL \<and> subs zombie_feed 1 = Some fresh_sub
   \<and> sources zombie_feed (source fresh_sub) = Some removed_source
   \<and> src_inactive removed_source \<and> subscribers removed_source = [1]
   \<and> (\<exists>feed'. clockfeed_on_message zombie_feed (CLOCKFEED_MSG_UNSUBSCRIBE 1) 9
                 = Some (MSG_REPLY, feed')
             \<and> feed_inv feed' \<and> sources feed' 1 = None \<and> 1 \<notin> set (inactive feed')
             \<and> subs feed' 1 = None)"
proof -
  have h: "feed_inv zombie_feed" by (rule feed_inv_zombie_feed)
  have f: "sources zombie_feed 9 = None" "subs zombie_feed 9 = None"
    by (simp_all add: zombie_feed_def)
  have e: "(1::nat) \<noteq> NULL \<and> subs zombie_feed 1 = Some fresh_sub
     \<and> sources zombie_feed (source fresh_sub) = Some removed_source
     \<and> src_inactive removed_source \<and> subscribers removed_source = [1]"
    by (simp add: zombie_feed_def NULL_def fresh_sub_def removed_source_def calloc_source_def)
  have s1: "source fresh_sub = 1" by (simp add: fresh_sub_def)
  note T = source_reclamation[OF h f]
  from T e obtain feed' where r:
    "clockfeed_on_message zombie_feed (CLOCKFEED_MSG_UNSUBSCRIBE 1) 9 = Some (MSG_REPLY, feed')"
    "sources feed' (source fresh_sub) = None" "source fresh_sub \<notin> set (inactive feed')"
    "subs feed' 1 = None"
    by blast
  from T r(1) have "feed_inv feed'" by blast
  thus ?thesis using h f e r s1 by auto
qed

section \<open>Properties of the SHM servo instance\<close>

lemmas shm_example_defs = example_env_def example_module_def slave_instance_def
  alarmed_instance_def faulty_instance_def monitoring_instance_def nan_delay_instance_def
  pulse_time_def sfptpd_time_null_def exact_sub_def zero_long_double_def

lemmas shm_flag_defs = SYNC_MODULE_SELECTED_def SYNC_MODULE_TIMESTAMP_PROCESSING_def
  SYNC_MODULE_CLOCK_CTRL_def SYNC_MODULE_CLUSTERING_DETERMINANT_def
  SYNC_MODULE_ALARM_SHM_NO_SIGNAL_def SYNC_MODULE_ALARM_SHM_SEQ_NUM_ERROR_def
  SYNC_MODULE_ALARM_NO_TIME_OF_DAY_def SYNC_MODULE_ALARM_SHM_BAD_SIGNAL_def

subsection \<open>The step decision (claim C2)\<close>

text \<open>Claim C2: on a servo update, if the clock control policy is \<open>SLEW_AND_STEP\<close>,
  or \<open>STEP_AT_STARTUP\<close> with the servo not yet active, or \<open>STEP_FORWARD\<close> with a
  negative offset, and the offset as the code computes it is at most -500 ms or at
  least 500 ms (by the code's own \<open>long double\<close> comparisons), and the
  \<open>CLOCK_CTRL\<close> flag is set, then the servo commands a clock step by the negated
  difference and sets the clock's frequency back to its saved correction, resets the
  FIR and PID filters (with the adjustments, the offset, the timestamp and the period),
  zeroes the cached offset of the time-of-day module and tells that module of the step,
  counts a clock step, marks the servo active, and returns: no sample is fed to the FIR
  or PID filter and nothing else of the instance changes.\<close>

theorem servo_update_steps_clock:
  assumes policy: "clocks_control env = SFPTPD_CLOCK_CTRL_SLEW_AND_STEP
       \<or> (clocks_control env = SFPTPD_CLOCK_CTRL_STEP_AT_STARTUP \<and> \<not> servo_active inst)
       \<or> (clocks_control env = SFPTPD_CLOCK_CTRL_STEP_FORWARD
            \<and> ld_less (shm_servo_diff_ns env inst shm_ts tod) 0)"
    and big: "ld_less_eq (shm_servo_diff_ns env inst shm_ts tod) (LD (- 500000000))
            \<or> ld_less_eq (LD 500000000) (shm_servo_diff_ns env inst shm_ts tod)"
    and ctl: "ctrl_flags inst AND SYNC_MODULE_CLOCK_CTRL \<noteq> 0"
  shows "shm_servo_update env shmod inst shm_ts tod =
           (shmod\<lparr>time_of_day_offset_from_master := sfptpd_time_null\<rparr>,
            inst\<lparr>fir_filter := sfptpd_fir_filter_reset env (fir_filter inst),
                 pid_filter := sfptpd_pid_filter_reset env (pid_filter inst),
                 freq_adjust_base := sfptpd_clock_get_freq_correction env,
                 freq_adjust_ppb := sfptpd_clock_get_freq_correction env,
                 offset_from_master_ns := 0,
                 shm_timestamp := sfptpd_time_null,
                 shm_period_ns := 0,
                 step_occurred := True,
                 counters := (counters inst)\<lparr>clock_steps := clock_steps (counters inst) + 1\<rparr>,
                 servo_active := True\<rparr>,
            [CLOCK_ADJUST_TIME
               (sfptpd_timespec_subtract sfptpd_time_null (shm_servo_diff shm_ts tod)),
             CLOCK_ADJUST_FREQUENCY (sfptpd_clock_get_freq_correction env),
             SYNC_MODULE_STEP_CLOCK sfptpd_time_null])"
proof -
  have "shm_servo_step_due (clocks_control env) inst (shm_servo_diff_ns env inst shm_ts tod)"
    using policy big unfolding shm_servo_step_due_def SHM_CLOCK_STEP_THRESHOLD_def by auto
  thus ?thesis using ctl
    by (simp add: shm_servo_update_def shm_servo_step_clock_def shm_servo_reset_def Let_def)
qed

text \<open>The claim at an offset of 1.2 s under \<open>SLEW_AND_STEP\<close>: one clock step, back by
  1.2 s, is commanded and counted.\<close>

theorem servo_update_steps_clock_witness:
  "clocks_control example_env = SFPTPD_CLOCK_CTRL_SLEW_AND_STEP
   \<and> shm_servo_diff_ns example_env slave_instance
         \<lparr>sec = 1001, nsec = 200000000, nsec_frac = 0\<rparr>
         \<lparr>sec = 1, nsec = 0, nsec_frac = 0\<rparr> = LD 1199998500
   \<and> ld_less_eq (LD 500000000) (LD 1199998500)
   \<and> ctrl_flags slave_instance AND SYNC_MODULE_CLOCK_CTRL \<noteq> 0
   \<and> snd (snd (shm_servo_update example_env example_module slave_instance
                  \<lparr>sec = 1001, nsec = 200000000, nsec_frac = 0\<rparr>
                  \<lparr>sec = 1, nsec = 0, nsec_frac = 0\<rparr>))
       = [CLOCK_ADJUST_TIME \<lparr>sec = - 2, nsec = 800000000, nsec_frac = 0\<rparr>,
          CLOCK_ADJUST_FREQUENCY 0,
          SYNC_MODULE_STEP_CLOCK sfptpd_time_null]
   \<and> clock_steps (counters (fst (snd (shm_servo_update example_env example_module
         slave_instance \<lparr>sec = 1001, nsec = 200000000, nsec_frac = 0\<rparr>
         \<lparr>sec = 1, nsec = 0, nsec_frac = 0\<rparr>)))) = 1
   \<and> fir_filter (fst (snd (shm_servo_update example_env example_module
         slave_instance \<lparr>sec = 1001, nsec = 200000000, nsec_frac = 0\<rparr>
         \<lparr>sec = 1, nsec = 0, nsec_frac = 0\<rparr>))) = []"
  using servo_update_steps_clock [of example_env slave_instance
      "\<lparr>sec = 1001, nsec = 200000000, nsec_frac = 0\<rparr>" "\<lparr>sec = 1, nsec = 0, nsec_frac = 0\<rparr>"
      example_module]
  by (simp add: shm_example_defs shm_flag_defs shm_servo_diff_ns_def shm_servo_diff_def
      sfptpd_timespec_subtract_def sfptpd_timespec_units_def sfptpd_timespec_of_units_def
      Let_def)

subsection \<open>The state machine on an event (claim C3)\<close>

text \<open>Claim C3 as stated says that a successful SHM event takes a faulty instance to
  the listening state with its state machine reset. The event takes the faulty example
  instance to the slave state, and its alarm is still raised afterwards.\<close>

theorem faulty_event_counterexample:
  "state faulty_instance = SYNC_MODULE_STATE_FAULTY
   \<and> map_option (state \<circ> fst \<circ> snd)
        (shm_on_shm_event example_env example_module faulty_instance 42 pulse_time)
       = Some SYNC_MODULE_STATE_SLAVE
   \<and> SYNC_MODULE_STATE_SLAVE \<noteq> SYNC_MODULE_STATE_LISTENING
   \<and> map_option (alarms \<circ> fst \<circ> snd)
        (shm_on_shm_event example_env example_module faulty_instance 42 pulse_time)
       = Some SYNC_MODULE_ALARM_NO_TIME_OF_DAY
   \<and> SYNC_MODULE_ALARM_NO_TIME_OF_DAY \<noteq> 0"
  by (simp add: shm_on_shm_event_def faulty_instance_def Let_def
      SYNC_MODULE_ALARM_NO_TIME_OF_DAY_def)

text \<open>Claim C3, amended: for every SHM servo instance in the faulty state,
  processing a successful SHM event takes the instance to the slave state without
  resetting its state machine: it zeroes the period and records the sequence number of
  the event, the time of its arrival and, with timestamp processing enabled, its
  timestamp; nothing else changes and no command is given. The transition of a faulty
  instance to the listening state, with the state machine reset, is made by a poll that
  finds no event.\<close>

theorem faulty_event:
  assumes "state inst = SYNC_MODULE_STATE_FAULTY"
  shows "shm_on_shm_event env shmod inst seq_num time =
           Some (shmod,
                 inst\<lparr>state := SYNC_MODULE_STATE_SLAVE, shm_period_ns := 0,
                      shm_seq_num := seq_num,
                      last_shm_time := snd (sfclock_gettime_monotonic env),
                      shm_timestamp :=
                        (if ctrl_flags inst AND SYNC_MODULE_TIMESTAMP_PROCESSING \<noteq> 0
                         then time else shm_timestamp inst)\<rparr>,
                 [])
       \<and> shm_on_no_shm_event env inst = Some (shm_state_machine_reset env inst)
       \<and> state (shm_state_machine_reset env inst) = SYNC_MODULE_STATE_LISTENING"
  using assms
  by (simp add: shm_on_shm_event_def shm_on_no_shm_event_def shm_state_machine_reset_def Let_def)

theorem faulty_event_witness:
  "state faulty_instance = SYNC_MODULE_STATE_FAULTY
   \<and> shm_on_shm_event example_env example_module faulty_instance 42 pulse_time =
       Some (example_module,
             faulty_instance\<lparr>state := SYNC_MODULE_STATE_SLAVE, shm_period_ns := 0,
                  shm_seq_num := 42,
                  last_shm_time := \<lparr>sec = 5000, nsec = 0, nsec_frac = 0\<rparr>,
                  shm_timestamp := pulse_time\<rparr>,
             [])
   \<and> map_option state (shm_on_no_shm_event example_env faulty_instance)
       = Some SYNC_MODULE_STATE_LISTENING"
  using faulty_event [of faulty_instance example_env example_module 42 pulse_time]
  by (simp add: faulty_instance_def slave_instance_def shm_state_machine_reset_def
      example_env_def shm_flag_defs)

subsection \<open>Convergence while an alarm is raised (claim C6)\<close>

text \<open>Claim C6 says that, in the slave state with an alarm raised, the convergence
  update sets \<open>synchronized\<close> to false and leaves the convergence measure alone. The
  comment in the code says the same (``we consider the slave to be unsynchronized.
  However, don't reset the convergence measure''), but the branch under it is empty:
  when the monotonic clock is read, an instance in the slave state with an alarm raised
  comes out of \<open>shm_convergence_update\<close> as it went in, so \<open>synchronized\<close> keeps its
  value, true or false, and the convergence measure is unchanged.\<close>

theorem convergence_update_alarm_unchanged:
  assumes "state inst = SYNC_MODULE_STATE_SLAVE" and "alarms inst \<noteq> 0"
    and "fst (sfclock_gettime_monotonic env) \<ge> 0"
  shows "shm_convergence_update env inst = inst"
  using assms
  by (cases "sfclock_gettime_monotonic env") (auto simp add: shm_convergence_update_def)

text \<open>At the locked example instance with \<open>NO_TIME_OF_DAY\<close> raised,
  \<open>synchronized\<close> is true before the update and still true after it.\<close>

theorem convergence_update_alarm_unchanged_witness:
  "state alarmed_instance = SYNC_MODULE_STATE_SLAVE
   \<and> alarms alarmed_instance = SYNC_MODULE_ALARM_NO_TIME_OF_DAY
   \<and> alarms alarmed_instance \<noteq> 0
   \<and> fst (sfclock_gettime_monotonic example_env) \<ge> 0
   \<and> synchronized alarmed_instance
   \<and> synchronized (shm_convergence_update example_env alarmed_instance)
   \<and> convergence (shm_convergence_update example_env alarmed_instance)
       = convergence alarmed_instance"
  using convergence_update_alarm_unchanged [of alarmed_instance example_env]
  by (simp add: alarmed_instance_def slave_instance_def example_env_def
      SYNC_MODULE_ALARM_NO_TIME_OF_DAY_def)

subsection \<open>The bound on the frequency adjustment (claim C8)\<close>





subsection \<open>The frame of a control message (claim C10)\<close>

text \<open>Claim C10: for every control message, the instance afterwards is the instance
  before with the new flags stored, the PID filter reset if the message clears a
  \<open>CLOCK_CTRL\<close> flag that was set, and the stored SHM timestamp zeroed if it clears a
  \<open>TIMESTAMP_PROCESSING\<close> flag that was set (a message that clears both does both).
  So a message that clears \<open>CLOCK_CTRL\<close> resets the PID filter and no other filter,
  a message that clears \<open>TIMESTAMP_PROCESSING\<close> zeroes the timestamp, and in every
  case the FIR filter, the frequency adjustments and their cap, the state, the alarms,
  the counters, the \<open>synchronized\<close> flag, the convergence measure and the offset are
  unchanged; the PID filter changes only when \<open>CLOCK_CTRL\<close> is cleared and the
  timestamp only when \<open>TIMESTAMP_PROCESSING\<close> is cleared.\<close>

theorem control_frame:
  "let new_flags = (ctrl_flags inst AND NOT m) OR (f AND m);
       clock_ctrl_cleared = (ctrl_flags inst AND SYNC_MODULE_CLOCK_CTRL \<noteq> 0 \<and>
                             new_flags AND SYNC_MODULE_CLOCK_CTRL = 0);
       timestamps_cleared = (ctrl_flags inst AND SYNC_MODULE_TIMESTAMP_PROCESSING \<noteq> 0 \<and>
                             new_flags AND SYNC_MODULE_TIMESTAMP_PROCESSING = 0);
       inst' = shm_on_control env inst m f
   in inst' = inst\<lparr>pid_filter := (if clock_ctrl_cleared
                                     then sfptpd_pid_filter_reset env (pid_filter inst)
                                     else pid_filter inst),
                    shm_timestamp := (if timestamps_cleared then sfptpd_time_null
                                      else shm_timestamp inst),
                    ctrl_flags := new_flags\<rparr>
    \<and> (clock_ctrl_cleared \<longrightarrow>
         pid_filter inst' = sfptpd_pid_filter_reset env (pid_filter inst))
    \<and> (timestamps_cleared \<longrightarrow> shm_timestamp inst' = sfptpd_time_null)
    \<and> ctrl_flags inst' = new_flags
    \<and> (clock_ctrl_cleared \<and> \<not> timestamps_cleared \<longrightarrow>
         inst' = inst\<lparr>pid_filter := sfptpd_pid_filter_reset env (pid_filter inst),
                       ctrl_flags := new_flags\<rparr>)
    \<and> (timestamps_cleared \<and> \<not> clock_ctrl_cleared \<longrightarrow>
         inst' = inst\<lparr>shm_timestamp := sfptpd_time_null, ctrl_flags := new_flags\<rparr>)
    \<and> (clock_ctrl_cleared \<and> timestamps_cleared \<longrightarrow>
         inst' = inst\<lparr>pid_filter := sfptpd_pid_filter_reset env (pid_filter inst),
                       shm_timestamp := sfptpd_time_null, ctrl_flags := new_flags\<rparr>)
    \<and> fir_filter inst' = fir_filter inst
    \<and> freq_adjust_base inst' = freq_adjust_base inst
    \<and> freq_adjust_ppb inst' = freq_adjust_ppb inst
    \<and> freq_adjust_max inst' = freq_adjust_max inst
    \<and> state inst' = state inst
    \<and> alarms inst' = alarms inst
    \<and> counters inst' = counters inst
    \<and> synchronized inst' = synchronized inst
    \<and> convergence inst' = convergence inst
    \<and> offset_from_master_ns inst' = offset_from_master_ns inst
    \<and> (\<not> clock_ctrl_cleared \<longrightarrow> pid_filter inst' = pid_filter inst)
    \<and> (\<not> timestamps_cleared \<longrightarrow> shm_timestamp inst' = shm_timestamp inst)"
  by (simp add: shm_on_control_def Let_def)

text \<open>The claim at the locked example instance: clearing \<open>CLOCK_CTRL\<close> resets the
  PID filter only, clearing \<open>TIMESTAMP_PROCESSING\<close> zeroes the timestamp only, and
  clearing both in one message does both.\<close>

theorem control_frame_witness:
  "ctrl_flags slave_instance AND SYNC_MODULE_CLOCK_CTRL \<noteq> 0
   \<and> ctrl_flags slave_instance AND SYNC_MODULE_TIMESTAMP_PROCESSING \<noteq> 0
   \<and> shm_on_control example_env slave_instance SYNC_MODULE_CLOCK_CTRL 0
       = slave_instance\<lparr>pid_filter := 0, ctrl_flags := SYNC_MODULE_TIMESTAMP_PROCESSING\<rparr>
   \<and> shm_on_control example_env slave_instance SYNC_MODULE_TIMESTAMP_PROCESSING 0
       = slave_instance\<lparr>shm_timestamp := sfptpd_time_null, ctrl_flags := SYNC_MODULE_CLOCK_CTRL\<rparr>
   \<and> shm_on_control example_env slave_instance
         (SYNC_MODULE_CLOCK_CTRL OR SYNC_MODULE_TIMESTAMP_PROCESSING) 0
       = slave_instance\<lparr>pid_filter := 0, shm_timestamp := sfptpd_time_null, ctrl_flags := 0\<rparr>"
  using control_frame [of slave_instance SYNC_MODULE_CLOCK_CTRL 0 example_env]
    control_frame [of slave_instance SYNC_MODULE_TIMESTAMP_PROCESSING 0 example_env]
    control_frame [of slave_instance
      "SYNC_MODULE_CLOCK_CTRL OR SYNC_MODULE_TIMESTAMP_PROCESSING" 0 example_env]
  by (simp add: slave_instance_def example_env_def shm_flag_defs Let_def)

end
